theory Spec2Isabelle
  imports
    Complex_Main
    "HOL-Library.AList"
    "HOL-Library.Char_ord"
    "HOL-Library.List_Lexorder"
    "HOL-Library.Option_ord"
    "HOL-Library.Multiset"
begin

section \<open>Country Currency and Exchange API: the refresh pipeline and its query endpoints\<close>

text \<open>
  A shallow embedding of \<^verbatim>\<open>src/controllers/country.controller.ts\<close>, the router
  \<^verbatim>\<open>src/routes/country.routes.ts\<close>, the 404 handler of the application file and the
  table of the Prisma migration.

  Modelling decisions:
  \<^item> a JavaScript \<^verbatim>\<open>number\<close> is a \<^typ>\<open>real\<close>: the finite doubles are reals, and
    every arithmetic operation rounds its exact result to a double; NaN and the
    infinities are left out;
  \<^item> a value that may be \<^verbatim>\<open>null\<close> or \<^verbatim>\<open>undefined\<close> is an \<^typ>\<open>'a option\<close>;
  \<^item> a \<^verbatim>\<open>Date\<close> and a \<^verbatim>\<open>DATETIME(3)\<close> are the milliseconds since the epoch;
  \<^item> the exchange-rate object is a map from currency codes to numbers (own keys only);
  \<^item> the outcome of \<^verbatim>\<open>Math.random()\<close> for the i-th country of a cycle is the i-th
    value of a function \<open>rnd\<close>, an input of the model;
  \<^item> a thrown exception that reaches the outer \<^verbatim>\<open>catch\<close> of a handler is the
    500 response of that handler.
\<close>

subsection \<open>Data model\<close>

type_synonym timestamp = int
type_synonym bytes = "nat list"

text \<open>One element of \<^verbatim>\<open>country.currencies\<close>; only \<^verbatim>\<open>code\<close> is read.\<close>

record currency =
  code :: string

text \<open>A record of the countries upstream, as \<^verbatim>\<open>refreshCountries\<close> reads it.\<close>

record raw_country =
  name :: string
  capital :: "string option"
  region :: "string option"
  population :: real
  flag :: "string option"
  currencies :: "currency list option"

text \<open>The object \<^verbatim>\<open>processedCountry\<close> that the schema validates.\<close>

record processed_country =
  name :: string
  capital :: "string option"
  region :: "string option"
  population :: real
  currency_code :: "string option"
  exchange_rate :: "real option"
  estimated_gdp :: "real option"
  flag_url :: "string option"

text \<open>An element of \<^verbatim>\<open>countriesToUpsert\<close>: the processed country and the cycle's timestamp.\<close>

record country_input = processed_country +
  last_refreshed_at :: timestamp

text \<open>A row of table \<^verbatim>\<open>Country\<close>: the inserted data and the surrogate key \<^verbatim>\<open>id\<close>.\<close>

record country = country_input +
  row_id :: nat

subsection \<open>JavaScript truthiness\<close>

text \<open>A string is truthy unless it is null, undefined or empty.\<close>

definition truthy_string :: "string option \<Rightarrow> bool" where
  "truthy_string s = (case s of None \<Rightarrow> False | Some v \<Rightarrow> v \<noteq> [])"

text \<open>A number is truthy unless it is undefined or zero.\<close>

definition truthy_number :: "real option \<Rightarrow> bool" where
  "truthy_number x = (case x of None \<Rightarrow> False | Some v \<Rightarrow> v \<noteq> 0)"

text \<open>\<^verbatim>\<open>x || null\<close> on an optional string.\<close>

definition or_null :: "string option \<Rightarrow> string option" where
  "or_null s = (if truthy_string s then s else None)"

subsection \<open>Double-precision arithmetic\<close>

text \<open>
  A finite double is a real \<open>n 2\<^sup>k\<close> with \<open>\<bar>n\<bar> < 2\<^sup>5\<^sup>3\<close> and \<open>k \<ge> - 1074\<close>, of magnitude at
  most \<open>max_double\<close>. An arithmetic operation of the code yields the double nearest to the
  exact result, the one with the even significand when two are equally near (IEEE 754,
  round to nearest): \<open>round_double\<close> of the exact result, computed in the binade of the
  result (the subnormal numbers share the exponent \<open>- 1022\<close>). A result beyond
  \<open>max_double\<close> is an infinity in the code; the model does not represent it, and the
  statements about arithmetic assume \<open>finite_result\<close>.
\<close>

definition exponent :: "real \<Rightarrow> int" where
  "exponent x = max \<lfloor>log 2 \<bar>x\<bar>\<rfloor> (- 1022)"

definition ulp :: "real \<Rightarrow> real" where
  "ulp x = 2 powr of_int (exponent x - 52)"

definition round_half_even :: "real \<Rightarrow> int" where
  "round_half_even y =
     (let f = \<lfloor>y\<rfloor> in
      if y - of_int f < 1/2 then f
      else if 1/2 < y - of_int f then f + 1
      else if even f then f else f + 1)"

definition round_double :: "real \<Rightarrow> real" where
  "round_double x = (if x = 0 then 0 else of_int (round_half_even (x / ulp x)) * ulp x)"

definition max_double :: real where
  "max_double = (2 ^ 53 - 1) * 2 ^ 971"

definition finite_result :: "real \<Rightarrow> bool" where
  "finite_result x = (\<bar>round_double x\<bar> \<le> max_double)"

subsection \<open>Deriving a candidate row (lines 48 to 62)\<close>

definition currencyCode_of :: "raw_country \<Rightarrow> string option" where
  "currencyCode_of c =
     (case currencies c of
        None \<Rightarrow> None
      | Some [] \<Rightarrow> None
      | Some (cur # _) \<Rightarrow> Some (code cur))"

definition exchangeRate_of :: "(string \<rightharpoonup> real) \<Rightarrow> string option \<Rightarrow> real option" where
  "exchangeRate_of exchangeRates currencyCode =
     (case currencyCode of
        None \<Rightarrow> None
      | Some c \<Rightarrow> if c \<noteq> [] \<and> truthy_number (exchangeRates c) then exchangeRates c else None)"

text \<open>\<^verbatim>\<open>Math.random() * 1000 + 1000\<close>, for the outcome \<open>r\<close> of \<^verbatim>\<open>Math.random()\<close>.\<close>

definition randomMultiplier :: "real \<Rightarrow> real" where
  "randomMultiplier r = round_double (round_double (r * 1000) + 1000)"

text \<open>
  \<^verbatim>\<open>exchangeRate ? (country.population * randomMultiplier) / exchangeRate
      : (currencyCode ? null : 0)\<close>
\<close>

definition estimatedGdp_of :: "real \<Rightarrow> string option \<Rightarrow> real option \<Rightarrow> real \<Rightarrow> real option" where
  "estimatedGdp_of pop currencyCode exchangeRate r =
     (case (if truthy_number exchangeRate then exchangeRate else None) of
        Some rate \<Rightarrow> Some (round_double (round_double (pop * randomMultiplier r) / rate))
      | None \<Rightarrow> if truthy_string currencyCode then None else Some 0)"

definition processCountry :: "(string \<rightharpoonup> real) \<Rightarrow> real \<Rightarrow> raw_country \<Rightarrow> processed_country" where
  "processCountry exchangeRates r c =
     (let currencyCode = currencyCode_of c;
          exchangeRate = exchangeRate_of exchangeRates currencyCode;
          estimatedGdp = estimatedGdp_of (raw_country.population c) currencyCode exchangeRate r
      in \<lparr> name = raw_country.name c,
           capital = or_null (raw_country.capital c),
           region = or_null (raw_country.region c),
           population = raw_country.population c,
           currency_code = currencyCode,
           exchange_rate = exchangeRate,
           estimated_gdp = estimatedGdp,
           flag_url = or_null (flag c) \<rparr>)"

subsection \<open>The validation schema (lines 9 to 18)\<close>

text \<open>
  An issue of a \<^verbatim>\<open>ZodError\<close>: the first element of its path and its message. The
  fields are parsed in the order of the schema and every check of a field is run. The
  string fields other than \<^verbatim>\<open>name\<close> and \<^verbatim>\<open>estimated_gdp\<close> are nullable and raise
  no issue on the values of the model.
\<close>

type_synonym issue = "string \<times> string"

definition is_int :: "real \<Rightarrow> bool" where
  "is_int x = (of_int \<lfloor>x\<rfloor> = x)"

definition name_issues :: "string \<Rightarrow> issue list" where
  "name_issues n =
     (if length n < 1 then [(''name'', ''String must contain at least 1 character(s)'')] else [])"

definition population_issues :: "real \<Rightarrow> issue list" where
  "population_issues p =
     (if is_int p then [] else [(''population'', ''Expected integer, received float'')]) @
     (if 0 \<le> p then [] else [(''population'', ''Number must be greater than or equal to 0'')])"

definition exchange_rate_issues :: "real option \<Rightarrow> issue list" where
  "exchange_rate_issues x =
     (case x of
        None \<Rightarrow> []
      | Some v \<Rightarrow> if 0 < v then [] else [(''exchange_rate'', ''Number must be greater than 0'')])"

definition processedCountrySchema_parse :: "'a processed_country_scheme \<Rightarrow> issue list" where
  "processedCountrySchema_parse p =
     name_issues (name p) @ population_issues (population p) @ exchange_rate_issues (exchange_rate p)"

text \<open>\<^verbatim>\<open>details[field] = err.message\<close> for every issue: a later issue of a field overwrites.\<close>

definition details_of :: "issue list \<Rightarrow> (string \<times> string) list" where
  "details_of issues = fold (\<lambda>(field, message) details. AList.update field message details) issues []"

subsection \<open>Responses\<close>

datatype body =
    ErrorBody string
  | ErrorDetailsBody string string
  | ValidationBody string string "(string \<times> string) list"
  | MessageBody string
  | CountryBody country
  | CountriesBody "country list"
  | StatusBody nat "timestamp option"
  | FileBody bytes
  | EmptyBody

datatype response = Response (status: nat) (body: body)

definition internal_server_error :: response where
  "internal_server_error = Response 500 (ErrorBody ''Internal server error'')"

definition country_not_found :: response where
  "country_not_found = Response 404 (ErrorBody ''Country not found'')"

subsection \<open>The processing loop (lines 45 to 86)\<close>

text \<open>\<^verbatim>\<open>{ ...processedCountry, last_refreshed_at: now }\<close>\<close>

definition stamp :: "processed_country \<Rightarrow> timestamp \<Rightarrow> country_input" where
  "stamp p now = processed_country.extend p (country_input.fields now)"

text \<open>
  The loop over \<^verbatim>\<open>countriesData\<close>; \<open>i\<close> counts the countries already processed. The
  first country whose candidate has an issue ends the handler with the 400 response.
\<close>

fun process_all ::
  "(string \<rightharpoonup> real) \<Rightarrow> timestamp \<Rightarrow> (nat \<Rightarrow> real) \<Rightarrow> nat \<Rightarrow> raw_country list \<Rightarrow> response + country_input list"
where
  "process_all exchangeRates now rnd i [] = Inr []"
| "process_all exchangeRates now rnd i (c # cs) =
     (let processedCountry = processCountry exchangeRates (rnd i) c in
      case processedCountrySchema_parse processedCountry of
        [] \<Rightarrow>
          (case process_all exchangeRates now rnd (Suc i) cs of
             Inl resp \<Rightarrow> Inl resp
           | Inr countriesToUpsert \<Rightarrow> Inr (stamp processedCountry now # countriesToUpsert))
      | issues \<Rightarrow>
          Inl (Response 400
                 (ValidationBody ''Validation failed for country data'' (raw_country.name c)
                    (details_of issues))))"

subsection \<open>The table and the collation of its columns\<close>

text \<open>
  The table is created with \<^verbatim>\<open>COLLATE utf8mb4_unicode_ci\<close>: the comparisons of its string
  columns, the unique index on \<^verbatim>\<open>name\<close> among them, ignore case. The model folds the
  letters A to Z and leaves every other byte as it is.
\<close>

definition lower_char :: "char \<Rightarrow> char" where
  "lower_char c = (if CHR ''A'' \<le> c \<and> c \<le> CHR ''Z'' then char_of (of_char c + (32::nat)) else c)"

definition LOWER :: "string \<Rightarrow> string" where
  "LOWER s = map lower_char s"

definition collation_key :: "string \<Rightarrow> string" where
  "collation_key s = LOWER s"

text \<open>The SQL comparison \<^verbatim>\<open>a = b\<close> of two strings under the collation.\<close>

definition sql_eq :: "string \<Rightarrow> string \<Rightarrow> bool" where
  "sql_eq a b = (collation_key a = collation_key b)"

text \<open>\<^verbatim>\<open>UNIQUE INDEX Country_name_key(name)\<close>\<close>

definition Country_name_key :: "'a processed_country_scheme list \<Rightarrow> bool" where
  "Country_name_key table = distinct (map (\<lambda>r. collation_key (name r)) table)"

text \<open>
  The server state: the rows of the table in the order of insertion, and the files on
  disk that the image endpoint reads.
\<close>

record state =
  rows :: "country list"
  files :: "string \<rightharpoonup> bytes"
  cwd :: string

subsection \<open>The Prisma operations the handlers use\<close>

text \<open>
  \<^verbatim>\<open>ORDER BY\<close>: an insertion sort by the comparison \<open>le\<close>. The engine fixes no order
  among rows that compare equal; the model keeps the order of the table there.
\<close>

fun insort_by :: "('a \<Rightarrow> 'a \<Rightarrow> bool) \<Rightarrow> 'a \<Rightarrow> 'a list \<Rightarrow> 'a list" where
  "insort_by le x [] = [x]"
| "insort_by le x (y # ys) = (if le x y then x # y # ys else y # insort_by le x ys)"

definition order_by :: "('a \<Rightarrow> 'a \<Rightarrow> bool) \<Rightarrow> 'a list \<Rightarrow> 'a list" where
  "order_by le xs = foldr (insort_by le) xs []"

text \<open>
  The orderings of the handlers. A NULL sorts before every value in ascending order and
  after every value in descending order, as \<open>None\<close> does in the order on options.
\<close>

definition estimated_gdp_desc :: "country \<Rightarrow> country \<Rightarrow> bool" where
  "estimated_gdp_desc a b = (estimated_gdp b \<le> estimated_gdp a)"

definition estimated_gdp_asc :: "country \<Rightarrow> country \<Rightarrow> bool" where
  "estimated_gdp_asc a b = (estimated_gdp a \<le> estimated_gdp b)"

definition name_asc :: "country \<Rightarrow> country \<Rightarrow> bool" where
  "name_asc a b = (collation_key (name a) \<le> collation_key (name b))"

definition last_refreshed_at_desc :: "country \<Rightarrow> country \<Rightarrow> bool" where
  "last_refreshed_at_desc a b = (last_refreshed_at b \<le> last_refreshed_at a)"

text \<open>\<^verbatim>\<open>prisma.country.deleteMany()\<close>\<close>

definition deleteMany :: "country list \<Rightarrow> country list" where
  "deleteMany table = []"

text \<open>
  \<^verbatim>\<open>prisma.country.createMany({ data })\<close>: the rows get consecutive keys from the
  counter of the engine, \<open>first_id\<close>; the insert fails as a whole (\<open>None\<close>) when the
  unique index on \<^verbatim>\<open>name\<close> would not hold.
\<close>

definition with_id :: "country_input \<Rightarrow> nat \<Rightarrow> country" where
  "with_id d i = country_input.extend d (country.fields i)"

definition createMany :: "nat \<Rightarrow> country_input list \<Rightarrow> country list \<Rightarrow> country list option" where
  "createMany first_id data table =
     (let table' = table @ map2 with_id data [first_id ..< first_id + length data]
      in if Country_name_key table' then Some table' else None)"

text \<open>
  \<^verbatim>\<open>prisma.$transaction([deleteMany(), createMany({ data })])\<close>: \<open>None\<close> is the rejected
  promise, after the rollback; the caller keeps the table it had.
\<close>

definition replace_transaction :: "nat \<Rightarrow> country_input list \<Rightarrow> country list \<Rightarrow> country list option" where
  "replace_transaction first_id data table = createMany first_id data (deleteMany table)"

text \<open>\<^verbatim>\<open>prisma.country.count()\<close>\<close>

definition count_rows :: "country list \<Rightarrow> nat" where
  "count_rows table = length table"

text \<open>\<^verbatim>\<open>prisma.country.findMany({ where, orderBy })\<close>\<close>

definition findMany :: "(country \<Rightarrow> bool) \<Rightarrow> (country \<Rightarrow> country \<Rightarrow> bool) \<Rightarrow> country list \<Rightarrow> country list" where
  "findMany where_clause orderBy table = order_by orderBy (filter where_clause table)"

text \<open>
  \<^verbatim>\<open>prisma.country.delete({ where: { name } })\<close>: \<open>None\<close> when no row has the name
  (Prisma rejects with "record to delete does not exist").
\<close>

definition delete_by_name :: "string \<Rightarrow> country list \<Rightarrow> country list option" where
  "delete_by_name n table =
     (if list_ex (\<lambda>r. sql_eq (name r) n) table
      then Some (filter (\<lambda>r. \<not> sql_eq (name r) n) table) else None)"

text \<open>\<^verbatim>\<open>SELECT ... FROM Country WHERE LOWER(name) = LOWER(${name}) LIMIT 1\<close>\<close>

definition select_by_lower_name :: "string \<Rightarrow> country list \<Rightarrow> country list" where
  "select_by_lower_name n table = take 1 (filter (\<lambda>r. sql_eq (LOWER (name r)) (LOWER n)) table)"

subsection \<open>The handlers\<close>

text \<open>
  What a refresh cycle reads from outside: the results of the two fetches (\<open>None\<close> when
  the upstream is unavailable), the clock, the random numbers, the next key of the
  engine, and \<^verbatim>\<open>generateSummaryImage\<close> of \<^verbatim>\<open>utils/country.utils\<close>, a function on the
  files that is \<open>None\<close> when it throws.
\<close>

record refresh_env =
  fetchCountries :: "raw_country list option"
  fetchExchangeRates :: "(string \<rightharpoonup> real) option"
  now :: timestamp
  random :: "nat \<Rightarrow> real"
  next_id :: nat
  generateSummaryImage ::
    "nat \<Rightarrow> (string \<times> real option) list \<Rightarrow> timestamp \<Rightarrow> (string \<rightharpoonup> bytes) \<Rightarrow> (string \<rightharpoonup> bytes) option"

definition top5Gdp_of :: "country list \<Rightarrow> (string \<times> real option) list" where
  "top5Gdp_of table =
     map (\<lambda>r. (name r, estimated_gdp r))
       (take 5 (findMany (\<lambda>r. estimated_gdp r \<noteq> None) estimated_gdp_desc table))"

definition refreshCountries :: "refresh_env \<Rightarrow> state \<Rightarrow> response \<times> state" where
  "refreshCountries env st =
     (case fetchCountries env of
        None \<Rightarrow>
          (Response 503 (ErrorDetailsBody ''External data source unavailable''
             ''Could not fetch data from https://restcountries.com/v2/all?fields=name,capital,region,population,flag,currencies''), st)
      | Some countriesData \<Rightarrow>
     (case fetchExchangeRates env of
        None \<Rightarrow>
          (Response 503 (ErrorDetailsBody ''External data source unavailable''
             ''Could not fetch data from https://open.er-api.com/v6/latest/USD''), st)
      | Some exchangeRates \<Rightarrow>
     (case process_all exchangeRates (now env) (random env) 0 countriesData of
        Inl resp \<Rightarrow> (resp, st)
      | Inr countriesToUpsert \<Rightarrow>
     (case replace_transaction (next_id env) countriesToUpsert (rows st) of
        None \<Rightarrow> (internal_server_error, st)
      | Some table \<Rightarrow>
          (let st' = st\<lparr>rows := table\<rparr>;
               totalCountries = count_rows (rows st');
               top5Gdp = top5Gdp_of (rows st')
           in case generateSummaryImage env totalCountries top5Gdp (now env) (files st') of
                None \<Rightarrow> (internal_server_error, st')
              | Some files' \<Rightarrow>
                  (Response 200 (MessageBody ''Countries refreshed successfully''),
                   st'\<lparr>files := files'\<rparr>))))))"

text \<open>
  \<^verbatim>\<open>if (region) where.region = { equals: region }\<close>: a filter that is missing or empty
  is not applied; \<^verbatim>\<open>equals\<close> compares under the collation and a NULL column never
  matches.
\<close>

definition equals_filter :: "string option \<Rightarrow> string option \<Rightarrow> bool" where
  "equals_filter param column =
     (case param of
        None \<Rightarrow> True
      | Some p \<Rightarrow>
          if p = [] then True
          else (case column of None \<Rightarrow> False | Some v \<Rightarrow> sql_eq v p))"

definition orderBy_of :: "string option \<Rightarrow> country \<Rightarrow> country \<Rightarrow> bool" where
  "orderBy_of sortParam =
     (if sortParam = Some ''gdp_desc'' then estimated_gdp_desc
      else if sortParam = Some ''gdp_asc'' then estimated_gdp_asc
      else name_asc)"

definition getCountries :: "(string \<rightharpoonup> string) \<Rightarrow> state \<Rightarrow> response" where
  "getCountries query st =
     (let countries =
            findMany
              (\<lambda>r. equals_filter (query ''region'') (region r) \<and>
                    equals_filter (query ''currency'') (currency_code r))
              (orderBy_of (query ''sort'')) (rows st)
      in Response 200 (CountriesBody countries))"

definition getCountry :: "string \<Rightarrow> state \<Rightarrow> response" where
  "getCountry n st =
     (case select_by_lower_name n (rows st) of
        [] \<Rightarrow> country_not_found
      | c # _ \<Rightarrow> Response 200 (CountryBody c))"

definition deleteCountry :: "string \<Rightarrow> state \<Rightarrow> response \<times> state" where
  "deleteCountry n st =
     (case select_by_lower_name n (rows st) of
        [] \<Rightarrow> (country_not_found, st)
      | c # _ \<Rightarrow>
          (case delete_by_name (name c) (rows st) of
             None \<Rightarrow> (internal_server_error, st)
           | Some table \<Rightarrow> (Response 204 EmptyBody, st\<lparr>rows := table\<rparr>)))"

definition getStatus :: "state \<Rightarrow> response" where
  "getStatus st =
     (let totalCountries = count_rows (rows st);
          last = (case findMany (\<lambda>r. True) last_refreshed_at_desc (rows st) of
                    [] \<Rightarrow> None
                  | r # _ \<Rightarrow> Some (last_refreshed_at r))
      in Response 200 (StatusBody totalCountries last))"

definition tmpImagePath :: string where
  "tmpImagePath = ''/tmp/country-api-summary.png''"

definition cacheImagePath :: "state \<Rightarrow> string" where
  "cacheImagePath st = cwd st @ ''/cache/summary.png''"

definition getImage :: "state \<Rightarrow> response" where
  "getImage st =
     (case files st tmpImagePath of
        Some png \<Rightarrow> Response 200 (FileBody png)
      | None \<Rightarrow>
          (case files st (cacheImagePath st) of
             Some png \<Rightarrow> Response 200 (FileBody png)
           | None \<Rightarrow> Response 404 (ErrorBody ''Summary image not found'')))"

subsection \<open>The router and the application\<close>

datatype http_method = GET | POST | DELETE | PUT | PATCH

datatype segment = Lit string | Param string

datatype handler =
  RefreshCountries | GetCountries | GetCountry | DeleteCountry | GetStatus | GetImage

record request =
  http_method :: http_method
  originalUrl :: string
  path :: "string list"
  query :: "string \<rightharpoonup> string"

text \<open>
  A route pattern against the segments of the request path: a literal matches itself, a
  parameter matches any segment that is not empty and binds it.
\<close>

fun match_path :: "segment list \<Rightarrow> string list \<Rightarrow> (string \<times> string) list option" where
  "match_path [] [] = Some []"
| "match_path (Lit l # ps) (s # ss) = (if l = s then match_path ps ss else None)"
| "match_path (Param k # ps) (s # ss) =
     (if s = [] then None
      else (case match_path ps ss of None \<Rightarrow> None | Some params \<Rightarrow> Some ((k, s) # params)))"
| "match_path _ _ = None"

text \<open>The routes in the order of their registration.\<close>

definition router :: "(http_method \<times> segment list \<times> handler) list" where
  "router =
     [(POST, [Lit ''countries'', Lit ''refresh''], RefreshCountries),
      (GET, [Lit ''countries''], GetCountries),
      (GET, [Lit ''countries'', Param ''name''], GetCountry),
      (DELETE, [Lit ''countries'', Param ''name''], DeleteCountry),
      (GET, [Lit ''status''], GetStatus),
      (GET, [Lit ''countries'', Lit ''image''], GetImage)]"

text \<open>Express runs the first route whose method and path match.\<close>

fun find_route ::
  "(http_method \<times> segment list \<times> handler) list \<Rightarrow> http_method \<Rightarrow> string list \<Rightarrow> (handler \<times> (string \<times> string) list) option"
where
  "find_route [] m p = None"
| "find_route ((m', pat, h) # rs) m p =
     (if m' = m
      then (case match_path pat p of Some params \<Rightarrow> Some (h, params) | None \<Rightarrow> find_route rs m p)
      else find_route rs m p)"

definition run_handler ::
  "handler \<Rightarrow> (string \<times> string) list \<Rightarrow> refresh_env \<Rightarrow> request \<Rightarrow> state \<Rightarrow> response \<times> state"
where
  "run_handler h params env req st =
     (case h of
        RefreshCountries \<Rightarrow> refreshCountries env st
      | GetCountries \<Rightarrow> (getCountries (query req) st, st)
      | GetCountry \<Rightarrow>
          (case map_of params ''name'' of
             Some n \<Rightarrow> (getCountry n st, st) | None \<Rightarrow> (internal_server_error, st))
      | DeleteCountry \<Rightarrow>
          (case map_of params ''name'' of
             Some n \<Rightarrow> deleteCountry n st | None \<Rightarrow> (internal_server_error, st))
      | GetStatus \<Rightarrow> (getStatus st, st)
      | GetImage \<Rightarrow> (getImage st, st))"

text \<open>The application: the router, then the 404 handler.\<close>

definition app :: "refresh_env \<Rightarrow> request \<Rightarrow> state \<Rightarrow> response \<times> state" where
  "app env req st =
     (case find_route router (http_method req) (path req) of
        Some (h, params) \<Rightarrow> run_handler h params env req st
      | None \<Rightarrow> (Response 404 (ErrorBody (''Route '' @ originalUrl req @ '' not found'')), st))"

text \<open>
  The states the server can be in: it starts on the empty table (whatever the files),
  and every request is a step.
\<close>

inductive reachable :: "state \<Rightarrow> bool" where
  start: "rows st = [] \<Longrightarrow> reachable st"
| request: "reachable st \<Longrightarrow> reachable (snd (app env req st))"

subsection \<open>The schema in the words of the specification\<close>

text \<open>
  A candidate is valid when its name is not empty, its population is a non-negative
  integer and its exchange rate is positive or absent.
\<close>

definition valid_candidate :: "'a processed_country_scheme \<Rightarrow> bool" where
  "valid_candidate p =
     (name p \<noteq> [] \<and> population p \<in> \<int> \<and> 0 \<le> population p \<and>
      (case exchange_rate p of None \<Rightarrow> True | Some v \<Rightarrow> 0 < v))"


subsection \<open>Example inputs\<close>

definition example_rates :: "string \<rightharpoonup> real" where
  "example_rates = [''NGN'' \<mapsto> 1600, ''NOK'' \<mapsto> 10]"

definition rates_with_empty_key :: "string \<rightharpoonup> real" where
  "rates_with_empty_key = ['''' \<mapsto> 0]"

definition nigeria :: raw_country where
  "nigeria =
     \<lparr> raw_country.name = ''Nigeria'', raw_country.capital = Some ''Abuja'',
       raw_country.region = Some ''Africa'', raw_country.population = 206139589,
       flag = Some ''https://flagcdn.com/ng.svg'', currencies = Some [\<lparr>code = ''NGN''\<rparr>] \<rparr>"

definition bouvet_island :: raw_country where
  "bouvet_island =
     \<lparr> raw_country.name = ''Bouvet Island'', raw_country.capital = Some '''',
       raw_country.region = Some ''Antarctic Ocean'', raw_country.population = 0,
       flag = Some ''https://flagcdn.com/bv.svg'', currencies = Some [\<lparr>code = ''NOK''\<rparr>] \<rparr>"

definition empty_code_country :: raw_country where
  "empty_code_country =
     \<lparr> raw_country.name = ''Atlantis'', raw_country.capital = None,
       raw_country.region = None, raw_country.population = 1000,
       flag = None, currencies = Some [\<lparr>code = ''''\<rparr>] \<rparr>"

text \<open>The largest double below \<open>1\<close>.\<close>

definition largest_random :: real where
  "largest_random = 1 - 1 / 2 ^ 53"

definition one_person_country :: raw_country where
  "one_person_country =
     \<lparr> raw_country.name = ''Solitude'', raw_country.capital = None,
       raw_country.region = None, raw_country.population = 1,
       flag = None, currencies = Some [\<lparr>code = ''SOL''\<rparr>] \<rparr>"

definition rates_of_three :: "string \<rightharpoonup> real" where
  "rates_of_three = [''SOL'' \<mapsto> 3]"

definition example_now :: timestamp where
  "example_now = 1761156000000"

definition example_png :: bytes where
  "example_png = [137, 80, 78, 71, 13, 10, 26, 10]"

definition example_env :: refresh_env where
  "example_env =
     \<lparr> fetchCountries = Some [nigeria, bouvet_island],
       fetchExchangeRates = Some example_rates,
       now = example_now,
       random = (\<lambda>i. 1/2),
       next_id = 1,
       generateSummaryImage = (\<lambda>totalCountries top5Gdp asOf fs. Some (fs(tmpImagePath \<mapsto> example_png))) \<rparr>"

definition empty_state :: state where
  "empty_state = \<lparr> rows = [], files = Map.empty, cwd = ''/app'' \<rparr>"

definition nigeria_row :: country where
  "nigeria_row =
     \<lparr> name = ''Nigeria'', capital = Some ''Abuja'', region = Some ''Africa'',
       population = 206139589, currency_code = Some ''NGN'', exchange_rate = Some 1600,
       estimated_gdp = Some (206139589 * 1500 / 1600),
       flag_url = Some ''https://flagcdn.com/ng.svg'',
       last_refreshed_at = example_now, row_id = 1 \<rparr>"

definition bouvet_island_row :: country where
  "bouvet_island_row =
     \<lparr> name = ''Bouvet Island'', capital = None, region = Some ''Antarctic Ocean'',
       population = 0, currency_code = Some ''NOK'', exchange_rate = Some 10,
       estimated_gdp = Some 0,
       flag_url = Some ''https://flagcdn.com/bv.svg'',
       last_refreshed_at = example_now, row_id = 2 \<rparr>"

definition refreshed_state :: state where
  "refreshed_state =
     \<lparr> rows = [nigeria_row, bouvet_island_row], files = [tmpImagePath \<mapsto> example_png], cwd = ''/app'' \<rparr>"

definition negative_population_country :: raw_country where
  "negative_population_country =
     \<lparr> raw_country.name = ''Nowhere'', raw_country.capital = None,
       raw_country.region = None, raw_country.population = - 5,
       flag = None, currencies = None \<rparr>"

definition invalid_env :: refresh_env where
  "invalid_env = example_env \<lparr> fetchCountries := Some [nigeria, negative_population_country, bouvet_island] \<rparr>"

definition duplicate_env :: refresh_env where
  "duplicate_env = example_env \<lparr> fetchCountries := Some [nigeria, nigeria] \<rparr>"

definition refresh_request :: request where
  "refresh_request =
     \<lparr> http_method = POST, originalUrl = ''/countries/refresh'',
       path = [''countries'', ''refresh''], query = Map.empty \<rparr>"

definition image_request :: request where
  "image_request =
     \<lparr> http_method = GET, originalUrl = ''/countries/image'',
       path = [''countries'', ''image''], query = Map.empty \<rparr>"

text \<open>A later cycle, run on the table that the example cycle left: it fetches Nigeria alone.\<close>

definition later_now :: timestamp where
  "later_now = 1761159600000"

definition later_env :: refresh_env where
  "later_env = example_env \<lparr> fetchCountries := Some [nigeria], now := later_now, next_id := 3 \<rparr>"

definition later_nigeria_row :: country where
  "later_nigeria_row = nigeria_row \<lparr> last_refreshed_at := later_now, row_id := 3 \<rparr>"

definition later_state :: state where
  "later_state = refreshed_state \<lparr> rows := [later_nigeria_row] \<rparr>"




definition status_request :: request where
  "status_request =
     \<lparr> http_method = GET, originalUrl = ''/status'', path = [''status''], query = Map.empty \<rparr>"

definition atlantis_row :: country where
  "atlantis_row =
     \<lparr> name = ''Atlantis'', capital = None, region = Some ''Africa'',
       population = 1000, currency_code = Some ''ATL'', exchange_rate = None,
       estimated_gdp = None, flag_url = None,
       last_refreshed_at = example_now, row_id = 3 \<rparr>"

definition listing_state :: state where
  "listing_state = refreshed_state \<lparr> rows := [nigeria_row, atlantis_row, bouvet_island_row] \<rparr>"


definition mixed_state :: state where
  "mixed_state = refreshed_state \<lparr> rows := [bouvet_island_row, later_nigeria_row, nigeria_row] \<rparr>"

section \<open>Properties\<close>

subsection \<open>Rounding to a double\<close>

lemma round_half_even_int [simp]: "round_half_even (of_int n) = n"
  by (simp add: round_half_even_def)

lemma round_half_even_bounds:
  "of_int (round_half_even y) \<le> y + 1/2" "y - 1/2 \<le> of_int (round_half_even y)"
  unfolding round_half_even_def Let_def by (auto; linarith)+

lemma round_half_even_mono:
  assumes "y \<le> z"
  shows "round_half_even y \<le> round_half_even z"
proof (cases "\<lfloor>y\<rfloor> = \<lfloor>z\<rfloor>")
  case True
  with assms show ?thesis
    by (auto simp add: round_half_even_def Let_def)
next
  case False
  with assms have "\<lfloor>y\<rfloor> < \<lfloor>z\<rfloor>"
    by (simp add: floor_mono order.not_eq_order_implies_strict)
  then have "\<lfloor>y\<rfloor> + 1 \<le> \<lfloor>z\<rfloor>" by simp
  moreover have "round_half_even y \<le> \<lfloor>y\<rfloor> + 1"
    by (simp add: round_half_even_def Let_def)
  moreover have "\<lfloor>z\<rfloor> \<le> round_half_even z"
    by (simp add: round_half_even_def Let_def)
  ultimately show ?thesis by linarith
qed

lemma ulp_pos [simp]: "0 < ulp x"
  by (simp add: ulp_def)

lemma ulp_nonneg [simp]: "0 \<le> ulp x"
  by (simp add: ulp_def)

lemma div_ulp_mono: "a \<le> b \<Longrightarrow> a / ulp x \<le> b / ulp x"
  by (erule divide_right_mono) (rule ulp_nonneg)

lemma scale_ulp: "2 powr of_int k * ulp x = 2 powr of_int (exponent x - 52 + k)"
proof -
  have "2 powr of_int k * ulp x = 2 powr (of_int k + of_int (exponent x - 52))"
    unfolding ulp_def by (simp only: powr_add)
  also have "of_int k + of_int (exponent x - 52) = (of_int (exponent x - 52 + k) :: real)"
    by simp
  finally show ?thesis .
qed

lemma two_powr_int: "(2::real) powr of_int (int n) = of_int (2 ^ n)"
proof -
  have "(2::real) powr of_int (int n) = 2 powr real n" by simp
  also have "\<dots> = 2 ^ n" by (rule powr_realpow) simp
  finally show ?thesis by simp
qed

lemma exponent_mono:
  assumes "0 < x" and "x \<le> y"
  shows "exponent x \<le> exponent y"
proof -
  from assms have "log 2 \<bar>x\<bar> \<le> log 2 \<bar>y\<bar>" by simp
  then have "\<lfloor>log 2 \<bar>x\<bar>\<rfloor> \<le> \<lfloor>log 2 \<bar>y\<bar>\<rfloor>" by (rule floor_mono)
  then show ?thesis by (simp add: exponent_def)
qed

lemma below_next_binade:
  assumes "0 < x"
  shows "x < 2 powr of_int (exponent x + 1)"
proof -
  have "\<lfloor>log 2 x\<rfloor> = \<lfloor>log 2 x\<rfloor>" ..
  with assms have "x < 2 powr of_int (\<lfloor>log 2 x\<rfloor> + 1)"
    using floor_log_eq_powr_iff [of x 2 "\<lfloor>log 2 x\<rfloor>"] by simp
  also have "\<dots> \<le> 2 powr of_int (exponent x + 1)"
    using assms by (intro powr_mono) (simp_all add: exponent_def)
  finally show ?thesis .
qed

lemma above_binade:
  assumes "0 < x" and "- 1022 < exponent x"
  shows "2 powr of_int (exponent x) \<le> x"
proof -
  from assms have e: "exponent x = \<lfloor>log 2 x\<rfloor>"
    by (simp add: exponent_def max_def split: if_splits)
  have "\<lfloor>log 2 x\<rfloor> = \<lfloor>log 2 x\<rfloor>" ..
  with assms have "2 powr of_int \<lfloor>log 2 x\<rfloor> \<le> x"
    using floor_log_eq_powr_iff [of x 2 "\<lfloor>log 2 x\<rfloor>"] by simp
  with e show ?thesis by simp
qed

lemma round_double_nonneg:
  assumes "0 \<le> x"
  shows "0 \<le> round_double x"
proof (cases "x = 0")
  case True
  then show ?thesis by (simp add: round_double_def)
next
  case False
  from assms have "0 / ulp x \<le> x / ulp x" by (rule div_ulp_mono)
  then have "0 \<le> x / ulp x" by simp
  then have "round_half_even 0 \<le> round_half_even (x / ulp x)"
    by (rule round_half_even_mono)
  then have "0 \<le> round_half_even (x / ulp x)"
    using round_half_even_int [of 0] by simp
  with False show ?thesis by (simp add: round_double_def)
qed

lemma round_double_le_next_binade:
  assumes "0 < x"
  shows "round_double x \<le> 2 powr of_int (exponent x + 1)"
proof -
  have p: "2 powr of_int (exponent x + 1) / ulp x = 2 powr 53"
    by (simp add: ulp_def flip: powr_diff)
  have "x / ulp x \<le> 2 powr of_int (exponent x + 1) / ulp x"
    using below_next_binade [OF assms] by (intro div_ulp_mono) simp
  then have "x / ulp x \<le> of_int (2 ^ 53)"
    unfolding p by simp
  then have "round_half_even (x / ulp x) \<le> round_half_even (of_int (2 ^ 53))"
    by (rule round_half_even_mono)
  then have "round_half_even (x / ulp x) \<le> 2 ^ 53"
    unfolding round_half_even_int .
  then have "(of_int (round_half_even (x / ulp x)) :: real) \<le> of_int (2 ^ 53)"
    by (simp only: of_int_le_iff)
  then have "of_int (round_half_even (x / ulp x)) * ulp x \<le> of_int (2 ^ 53) * ulp x"
    by (rule mult_right_mono) simp
  also have "of_int (2 ^ 53) * ulp x = 2 powr of_int (int 53) * ulp x"
    by (simp only: two_powr_int)
  also have "\<dots> = 2 powr of_int (exponent x - 52 + int 53)"
    by (rule scale_ulp)
  also have "exponent x - 52 + int 53 = exponent x + 1"
    by simp
  finally have "of_int (round_half_even (x / ulp x)) * ulp x \<le> 2 powr of_int (exponent x + 1)" .
  moreover from assms have "round_double x = of_int (round_half_even (x / ulp x)) * ulp x"
    by (simp add: round_double_def)
  ultimately show ?thesis by (simp only:)
qed

lemma round_double_ge_binade:
  assumes "0 < x" and "- 1022 < exponent x"
  shows "2 powr of_int (exponent x) \<le> round_double x"
proof -
  have p: "2 powr of_int (exponent x) / ulp x = 2 powr 52"
    by (simp add: ulp_def flip: powr_diff)
  have "2 powr of_int (exponent x) / ulp x \<le> x / ulp x"
    using above_binade [OF assms] by (rule div_ulp_mono)
  then have "of_int (2 ^ 52) \<le> x / ulp x"
    unfolding p by simp
  then have "round_half_even (of_int (2 ^ 52)) \<le> round_half_even (x / ulp x)"
    by (rule round_half_even_mono)
  then have "2 ^ 52 \<le> round_half_even (x / ulp x)"
    unfolding round_half_even_int .
  then have "(of_int (2 ^ 52) :: real) \<le> of_int (round_half_even (x / ulp x))"
    by (simp only: of_int_le_iff)
  then have le: "of_int (2 ^ 52) * ulp x \<le> of_int (round_half_even (x / ulp x)) * ulp x"
    by (rule mult_right_mono) simp
  have "exponent x = exponent x - 52 + int 52"
    by simp
  then have "2 powr of_int (exponent x) = 2 powr of_int (exponent x - 52 + int 52)"
    by (rule arg_cong)
  also have "\<dots> = 2 powr of_int (int 52) * ulp x"
    by (rule scale_ulp [symmetric])
  also have "\<dots> = of_int (2 ^ 52) * ulp x"
    by (simp only: two_powr_int)
  also note le
  finally have "2 powr of_int (exponent x) \<le> of_int (round_half_even (x / ulp x)) * ulp x" .
  moreover from assms have "round_double x = of_int (round_half_even (x / ulp x)) * ulp x"
    by (simp add: round_double_def)
  ultimately show ?thesis by (simp only:)
qed

lemma round_double_mono:
  assumes "0 \<le> x" and "x \<le> y"
  shows "round_double x \<le> round_double y"
proof (cases "x = 0")
  case True
  with assms round_double_nonneg [of y] show ?thesis by (simp add: round_double_def)
next
  case False
  with assms have x: "0 < x" and y: "0 < y" by simp_all
  from x assms(2) have e: "exponent x \<le> exponent y" by (rule exponent_mono)
  show ?thesis
  proof (cases "exponent x = exponent y")
    case True
    then have u: "ulp x = ulp y" by (simp add: ulp_def)
    from assms(2) have "x / ulp y \<le> y / ulp y" by (rule div_ulp_mono)
    then have "round_half_even (x / ulp y) \<le> round_half_even (y / ulp y)"
      by (rule round_half_even_mono)
    then have "(of_int (round_half_even (x / ulp y)) :: real) \<le> of_int (round_half_even (y / ulp y))"
      by (simp only: of_int_le_iff)
    then have "of_int (round_half_even (x / ulp y)) * ulp y \<le> of_int (round_half_even (y / ulp y)) * ulp y"
      by (rule mult_right_mono) simp
    with x y u show ?thesis by (simp add: round_double_def)
  next
    case False
    with e have l: "exponent x + 1 \<le> exponent y" by simp
    have "- 1022 \<le> exponent x" by (simp add: exponent_def)
    with l have "- 1022 < exponent y" by simp
    with y have "2 powr of_int (exponent y) \<le> round_double y"
      by (rule round_double_ge_binade)
    moreover have "round_double x \<le> 2 powr of_int (exponent x + 1)"
      using x by (rule round_double_le_next_binade)
    moreover from l have "(2::real) powr of_int (exponent x + 1) \<le> 2 powr of_int (exponent y)"
      by (intro powr_mono) simp_all
    ultimately show ?thesis by linarith
  qed
qed


lemma exponent_eqI:
  assumes "2 powr of_int e \<le> \<bar>x\<bar>" and "\<bar>x\<bar> < 2 powr of_int (e + 1)" and "- 1022 \<le> e"
  shows "exponent x = e"
proof -
  have "0 < (2::real) powr of_int e" by simp
  with assms(1) have pos: "0 < \<bar>x\<bar>" by linarith
  from assms(1,2) have "\<lfloor>log 2 \<bar>x\<bar>\<rfloor> = e"
    using floor_log_eq_powr_iff [of "\<bar>x\<bar>" 2 e] pos by simp
  with assms(3) show ?thesis by (simp add: exponent_def)
qed

lemma ulp_small_exponent:
  assumes "exponent x \<le> 52"
  shows "ulp x = 1 / 2 ^ nat (52 - exponent x)"
proof -
  have "ulp x = 2 powr (- of_int (int (nat (52 - exponent x))))"
    using assms by (simp add: ulp_def)
  also have "\<dots> = 1 / 2 powr of_int (int (nat (52 - exponent x)))"
    by (simp only: powr_minus_divide)
  also have "\<dots> = 1 / of_int (2 ^ nat (52 - exponent x))"
    by (simp only: two_powr_int)
  finally show ?thesis by simp
qed

lemma round_double_small_exponent:
  assumes "x \<noteq> 0" and "exponent x = e" and "e \<le> 52"
  shows "round_double x = of_int (round_half_even (x * 2 ^ nat (52 - e))) / 2 ^ nat (52 - e)"
  using assms by (simp add: round_double_def ulp_small_exponent)

lemma round_double_zero [simp]: "round_double 0 = 0"
  by (simp add: round_double_def)

lemma round_double_exact:
  assumes x: "x = of_int n * 2 powr of_int k" and n: "\<bar>n\<bar> < 2 ^ 53" and k: "- 1074 \<le> k"
  shows "round_double x = x"
proof (cases "n = 0")
  case True
  with x show ?thesis by simp
next
  case False
  then have nz: "x \<noteq> 0" using x by simp
  have ax: "\<bar>x\<bar> = of_int \<bar>n\<bar> * 2 powr of_int k"
    unfolding x by (simp add: abs_mult)
  from n have "(of_int \<bar>n\<bar> :: real) < of_int (2 ^ 53)"
    by (simp only: of_int_less_iff)
  then have "(of_int \<bar>n\<bar> :: real) * 2 powr of_int k < of_int (2 ^ 53) * 2 powr of_int k"
    by (rule mult_strict_right_mono) simp
  also have "(of_int (2 ^ 53) :: real) * 2 powr of_int k = 2 powr of_int (int 53) * 2 powr of_int k"
    by (simp only: two_powr_int)
  also have "\<dots> = 2 powr (of_int (int 53) + of_int k)"
    by (simp only: powr_add)
  also have "of_int (int 53) + of_int k = (of_int (53 + k) :: real)"
    by simp
  finally have lt: "\<bar>x\<bar> < 2 powr of_int (53 + k)"
    unfolding ax .
  from nz have pos: "0 < \<bar>x\<bar>" by simp
  from lt pos have "log 2 \<bar>x\<bar> < of_int (53 + k)"
    by (simp add: log_less_iff)
  then have "\<lfloor>log 2 \<bar>x\<bar>\<rfloor> < 53 + k"
    by (simp only: floor_less_iff)
  with k have e: "exponent x - 52 \<le> k"
    by (simp add: exponent_def)
  define j where "j = nat (k - (exponent x - 52))"
  from e have kj: "k = exponent x - 52 + int j"
    by (simp add: j_def)
  define u where "u = ulp x"
  have u: "0 < u" by (simp add: u_def)
  have "2 powr of_int k = 2 powr of_int (int j) * ulp x"
    unfolding scale_ulp using kj by simp
  also have "\<dots> = of_int (2 ^ j) * u"
    by (simp only: two_powr_int u_def)
  finally have pk: "2 powr of_int k = of_int (2 ^ j) * u" .
  have xu: "x = of_int (n * 2 ^ j) * u"
    using x by (simp only: pk) simp
  with u have "x / u = of_int (n * 2 ^ j)"
    by simp
  then have "round_half_even (x / u) = n * 2 ^ j"
    by (simp only: round_half_even_int)
  moreover from nz have "round_double x = of_int (round_half_even (x / u)) * u"
    by (simp add: round_double_def u_def)
  ultimately have "round_double x = of_int (n * 2 ^ j) * u"
    by (simp only:)
  with xu show ?thesis by (simp only:)
qed

lemma round_double_int:
  assumes "\<bar>n\<bar> < 2 ^ 53"
  shows "round_double (of_int n) = of_int n"
  by (rule round_double_exact [of _ n 0]) (use assms in simp_all)

lemma round_double_dyadic:
  assumes "\<bar>n\<bar> < 2 ^ 53" and "j \<le> 1074"
  shows "round_double (of_int n / 2 ^ j) = of_int n / 2 ^ j"
proof (rule round_double_exact [of _ n "- int j"])
  have "(2::real) powr of_int (- int j) = 1 / 2 powr of_int (int j)"
    by (simp add: powr_minus_divide)
  also have "\<dots> = 1 / of_int (2 ^ j)"
    by (simp only: two_powr_int)
  finally show "(of_int n / 2 ^ j :: real) = of_int n * 2 powr of_int (- int j)"
    by simp
qed (use assms in simp_all)

lemma round_double_examples:
  "round_double 500 = 500" "round_double 1000 = 1000" "round_double 1500 = 1500"
  "round_double 2000 = 2000" "round_double 309209383500 = 309209383500"
  "round_double (3092093835 / 16) = 3092093835 / 16"
  using round_double_int [of 500] round_double_int [of 1000] round_double_int [of 1500]
    round_double_int [of 2000] round_double_int [of 309209383500]
    round_double_dyadic [of 3092093835 4]
  by simp_all


lemma round_double_below_one_times_1000:
  "round_double ((1 - 1 / 2 ^ 53) * 1000) = 8796093022207999 / 2 ^ 43"
proof -
  let ?x = "(1 - 1 / 2 ^ 53) * 1000 :: real"
  have e: "exponent ?x = 9"
    by (rule exponent_eqI) simp_all
  have r: "round_half_even (?x * 2 ^ nat (52 - 9)) = 8796093022207999"
    by (simp add: round_half_even_def Let_def)
  have "?x \<noteq> 0" by simp
  from round_double_small_exponent [OF this e] r show ?thesis
    by simp
qed

lemma round_double_tie_to_2000:
  "round_double (8796093022207999 / 2 ^ 43 + 1000) = 2000"
proof -
  let ?x = "8796093022207999 / 2 ^ 43 + 1000 :: real"
  have e: "exponent ?x = 10"
    by (rule exponent_eqI) simp_all
  have r: "round_half_even (?x * 2 ^ nat (52 - 10)) = 8796093022208000"
    by (simp add: round_half_even_def Let_def)
  have "?x \<noteq> 0" by simp
  from round_double_small_exponent [OF this e] r show ?thesis
    by simp
qed

lemma round_double_third_of_1000:
  "round_double (1000 / 3) = 5864062014805333 / 2 ^ 44"
proof -
  let ?x = "1000 / 3 :: real"
  have e: "exponent ?x = 8"
    by (rule exponent_eqI) simp_all
  have r: "round_half_even (?x * 2 ^ nat (52 - 8)) = 5864062014805333"
    by (simp add: round_half_even_def Let_def)
  have "?x \<noteq> 0" by simp
  from round_double_small_exponent [OF this e] r show ?thesis
    by simp
qed

subsection \<open>Candidate rows\<close>

lemma processCountry_simps [simp]:
  "name (processCountry rates r c) = raw_country.name c"
  "population (processCountry rates r c) = raw_country.population c"
  "currency_code (processCountry rates r c) = currencyCode_of c"
  "exchange_rate (processCountry rates r c) = exchangeRate_of rates (currencyCode_of c)"
  "estimated_gdp (processCountry rates r c) =
     estimatedGdp_of (raw_country.population c) (currencyCode_of c)
       (exchangeRate_of rates (currencyCode_of c)) r"
  "capital (processCountry rates r c) = or_null (raw_country.capital c)"
  "region (processCountry rates r c) = or_null (raw_country.region c)"
  "flag_url (processCountry rates r c) = or_null (flag c)"
  by (simp_all add: processCountry_def Let_def)

lemma randomMultiplier_range:
  assumes "0 \<le> r" and "r < 1"
  shows "1000 \<le> randomMultiplier r \<and> randomMultiplier r \<le> 2000"
proof -
  from assms have r: "0 \<le> r * 1000" "r * 1000 \<le> 1000" by simp_all
  have "round_double 0 \<le> round_double (r * 1000)"
    by (rule round_double_mono) (use r in simp_all)
  moreover have "round_double (r * 1000) \<le> round_double 1000"
    using r by (rule round_double_mono)
  ultimately have lo: "1000 \<le> round_double (r * 1000) + 1000"
    and hi: "round_double (r * 1000) + 1000 \<le> 2000"
    by (simp_all add: round_double_examples)
  from lo have "round_double 1000 \<le> round_double (round_double (r * 1000) + 1000)"
    by (intro round_double_mono) simp_all
  moreover from lo hi have "round_double (round_double (r * 1000) + 1000) \<le> round_double 2000"
    by (intro round_double_mono) simp_all
  ultimately show ?thesis
    by (simp add: randomMultiplier_def round_double_examples)
qed

lemma quotient_mono:
  assumes "0 \<le> a" and "a \<le> b" and "0 < R"
  shows "round_double (round_double a / R) \<le> round_double (round_double b / R)"
proof -
  from assms(1,2) have "round_double a \<le> round_double b" by (rule round_double_mono)
  with assms(3) have "round_double a / R \<le> round_double b / R"
    by (simp add: divide_right_mono)
  moreover from assms(1,3) have "0 \<le> round_double a / R"
    by (simp add: round_double_nonneg)
  ultimately show ?thesis by (intro round_double_mono)
qed

lemma example_rates_simps [simp]:
  "example_rates ''NGN'' = Some 1600" "example_rates ''NOK'' = Some 10" "example_rates '''' = None"
  "rates_of_three ''SOL'' = Some 3"
  by (simp_all add: example_rates_def rates_of_three_def)

lemma example_codes [simp]:
  "currencyCode_of nigeria = Some ''NGN''" "currencyCode_of bouvet_island = Some ''NOK''"
  "currencyCode_of empty_code_country = Some ''''"
  "currencyCode_of one_person_country = Some ''SOL''"
  by (simp_all add: currencyCode_of_def nigeria_def bouvet_island_def empty_code_country_def
        one_person_country_def)

lemma example_populations [simp]:
  "raw_country.population nigeria = 206139589" "raw_country.population bouvet_island = 0"
  "raw_country.population empty_code_country = 1000"
  "raw_country.population one_person_country = 1"
  by (simp_all add: nigeria_def bouvet_island_def empty_code_country_def one_person_country_def)

lemma example_multipliers:
  "randomMultiplier (1/2) = 1500" "randomMultiplier 0 = 1000"
  by (simp_all add: randomMultiplier_def round_double_examples)

lemma largest_random_multiplier: "randomMultiplier largest_random = 2000"
  by (simp only: randomMultiplier_def largest_random_def round_double_below_one_times_1000
        round_double_tie_to_2000)

lemma largest_random_range: "0 \<le> largest_random" "largest_random < 1"
  by (simp_all add: largest_random_def)

lemma example_gdp_nigeria:
  "round_double (round_double (206139589 * 1500) / 1600) = 3092093835 / 16"
  by (simp add: round_double_examples)

lemma example_finite_results:
  "finite_result 309209383500" "finite_result (3092093835 / 16)"
  by (simp_all add: finite_result_def round_double_examples max_double_def)

text \<open>
  C1, as the code has it. Let \<open>r\<close> in \<open>[0, 1)\<close> be the outcome of \<^verbatim>\<open>Math.random()\<close> for a
  country of population \<open>P\<close>, and \<open>m\<close> the double \<open>r * 1000 + 1000\<close>. If the country has a
  currency code that is not the empty string and the rates hold a positive rate \<open>R\<close> for
  it, and neither the product nor the quotient overflows, then \<^verbatim>\<open>estimated_gdp\<close> is the
  double \<open>(P * m) / R\<close>; \<open>m\<close> lies in \<open>[1000, 2000]\<close>; for \<open>P \<ge> 0\<close> the result lies between the
  doubles \<open>(P * 1000) / R\<close> and \<open>(P * 2000) / R\<close>, both included, and it is \<open>0\<close> when \<open>P\<close>
  is \<open>0\<close>. If the code is not empty and the rates hold nothing for it,
  \<^verbatim>\<open>estimated_gdp\<close> is null. If there is no currency code, or the code is the empty
  string, \<^verbatim>\<open>estimated_gdp\<close> is \<open>0\<close>.
\<close>

theorem estimated_gdp_branches:
  assumes "0 \<le> r" and "r < 1"
  shows "(\<forall>cc R.
            (let P = raw_country.population c;
                 m = round_double (round_double (r * 1000) + 1000);
                 gdp = round_double (round_double (P * m) / R)
             in currencyCode_of c = Some cc \<and> cc \<noteq> [] \<and> rates cc = Some R \<and> 0 < R
                \<and> finite_result (P * m) \<and> finite_result (round_double (P * m) / R) \<longrightarrow>
                estimated_gdp (processCountry rates r c) = Some gdp
                \<and> 1000 \<le> m \<and> m \<le> 2000
                \<and> (0 \<le> P \<longrightarrow>
                      round_double (round_double (P * 1000) / R) \<le> gdp
                    \<and> gdp \<le> round_double (round_double (P * 2000) / R))
                \<and> (P = 0 \<longrightarrow> gdp = 0)))
       \<and> (\<forall>cc. currencyCode_of c = Some cc \<and> cc \<noteq> [] \<and> rates cc = None \<longrightarrow>
            estimated_gdp (processCountry rates r c) = None)
       \<and> (currencyCode_of c = None \<or> currencyCode_of c = Some [] \<longrightarrow>
            estimated_gdp (processCountry rates r c) = Some 0)"
proof (intro conjI allI)
  fix cc R
  define P where "P = raw_country.population c"
  define m where "m = round_double (round_double (r * 1000) + 1000)"
  define gdp where "gdp = round_double (round_double (P * m) / R)"
  have m: "1000 \<le> m" "m \<le> 2000"
    using randomMultiplier_range [OF assms] by (simp_all add: m_def randomMultiplier_def)
  have "currencyCode_of c = Some cc \<and> cc \<noteq> [] \<and> rates cc = Some R \<and> 0 < R
          \<and> finite_result (P * m) \<and> finite_result (round_double (P * m) / R) \<longrightarrow>
        estimated_gdp (processCountry rates r c) = Some gdp
        \<and> 1000 \<le> m \<and> m \<le> 2000
        \<and> (0 \<le> P \<longrightarrow>
              round_double (round_double (P * 1000) / R) \<le> gdp
            \<and> gdp \<le> round_double (round_double (P * 2000) / R))
        \<and> (P = 0 \<longrightarrow> gdp = 0)"
  proof (intro impI conjI)
    assume h: "currencyCode_of c = Some cc \<and> cc \<noteq> [] \<and> rates cc = Some R \<and> 0 < R
          \<and> finite_result (P * m) \<and> finite_result (round_double (P * m) / R)"
    then show "estimated_gdp (processCountry rates r c) = Some gdp"
      by (simp add: estimatedGdp_of_def exchangeRate_of_def truthy_number_def
            randomMultiplier_def gdp_def m_def P_def)
    show "1000 \<le> m" and "m \<le> 2000" by (rule m)+
    from h have R: "0 < R" by simp
    {
      assume p: "0 \<le> P"
      with m have "0 \<le> P * 1000" and "P * 1000 \<le> P * m" and "0 \<le> P * m" and "P * m \<le> P * 2000"
        by (simp_all add: mult_left_mono)
      with R show "round_double (round_double (P * 1000) / R) \<le> gdp"
        and "gdp \<le> round_double (round_double (P * 2000) / R)"
        unfolding gdp_def by (simp_all add: quotient_mono)
    }
    {
      assume "P = 0"
      then show "gdp = 0" by (simp add: gdp_def)
    }
  qed
  then show "let P = raw_country.population c;
                 m = round_double (round_double (r * 1000) + 1000);
                 gdp = round_double (round_double (P * m) / R)
             in currencyCode_of c = Some cc \<and> cc \<noteq> [] \<and> rates cc = Some R \<and> 0 < R
                \<and> finite_result (P * m) \<and> finite_result (round_double (P * m) / R) \<longrightarrow>
                estimated_gdp (processCountry rates r c) = Some gdp
                \<and> 1000 \<le> m \<and> m \<le> 2000
                \<and> (0 \<le> P \<longrightarrow>
                      round_double (round_double (P * 1000) / R) \<le> gdp
                    \<and> gdp \<le> round_double (round_double (P * 2000) / R))
                \<and> (P = 0 \<longrightarrow> gdp = 0)"
    unfolding Let_def P_def m_def gdp_def .
next
  fix cc
  show "currencyCode_of c = Some cc \<and> cc \<noteq> [] \<and> rates cc = None \<longrightarrow>
            estimated_gdp (processCountry rates r c) = None"
    by (simp add: estimatedGdp_of_def exchangeRate_of_def truthy_number_def truthy_string_def)
next
  show "currencyCode_of c = None \<or> currencyCode_of c = Some [] \<longrightarrow>
            estimated_gdp (processCountry rates r c) = Some 0"
    by (auto simp add: estimatedGdp_of_def exchangeRate_of_def truthy_number_def
          truthy_string_def)
qed

theorem estimated_gdp_branches_witness:
  "(0::real) \<le> 1/2 \<and> (1/2::real) < 1 \<and> currencyCode_of nigeria = Some ''NGN''
   \<and> example_rates ''NGN'' = Some 1600
   \<and> finite_result (raw_country.population nigeria * round_double (round_double (1/2 * 1000) + 1000))
   \<and> finite_result (round_double
        (raw_country.population nigeria * round_double (round_double (1/2 * 1000) + 1000)) / 1600)
   \<and> estimated_gdp (processCountry example_rates (1/2) nigeria) = Some (206139589 * 1500 / 1600)"
  using estimated_gdp_branches [of "1/2" nigeria example_rates]
  by (simp add: round_double_examples example_finite_results Let_def)

text \<open>
  C1 as it is written fails in four ways. Bouvet Island has population \<open>0\<close> and a rate:
  its \<^verbatim>\<open>estimated_gdp\<close> is \<open>0\<close>, which is not below \<open>2000 P / R = 0\<close>. A country whose
  first currency has the empty string as code has a currency code and no rate, and its
  \<^verbatim>\<open>estimated_gdp\<close> is \<open>0\<close>, not null. For the largest \<open>r\<close> below \<open>1\<close> the multiplier is the double
  \<open>2000\<close>, which is not below \<open>2000\<close>. For \<open>r = 0\<close>, population \<open>1\<close> and rate \<open>3\<close> the result
  is a double below \<open>1000 / 3\<close>.
\<close>

theorem estimated_gdp_counterexample:
  "\<not> (the (estimated_gdp (processCountry example_rates (1/2) bouvet_island))
         < raw_country.population bouvet_island * 2000 / the (example_rates ''NOK''))
   \<and> currencyCode_of empty_code_country = Some ''''
   \<and> example_rates '''' = None
   \<and> estimated_gdp (processCountry example_rates (1/2) empty_code_country) \<noteq> None
   \<and> 0 \<le> largest_random \<and> largest_random < 1
   \<and> \<not> (randomMultiplier largest_random < 2000)
   \<and> \<not> (raw_country.population one_person_country * 1000 / the (rates_of_three ''SOL'')
         \<le> the (estimated_gdp (processCountry rates_of_three 0 one_person_country)))"
  by (simp add: estimatedGdp_of_def exchangeRate_of_def truthy_number_def truthy_string_def
        example_multipliers largest_random_multiplier largest_random_range
        round_double_examples round_double_third_of_1000)

text \<open>
  C10, as the code has it. A rate of exactly \<open>0\<close> is read as no rate: \<^verbatim>\<open>exchange_rate\<close> is
  null, and \<^verbatim>\<open>estimated_gdp\<close> is null when the currency code is not the empty string and
  \<open>0\<close> when it is. Whenever a candidate has an exchange rate, the rate is not \<open>0\<close> and it is
  the divisor of \<^verbatim>\<open>estimated_gdp\<close>: no division by zero is evaluated.
\<close>

theorem zero_rate_is_absent:
  "(\<forall>cc. currencyCode_of c = Some cc \<and> rates cc = Some 0 \<longrightarrow>
      exchange_rate (processCountry rates r c) = None
      \<and> (cc \<noteq> [] \<longrightarrow> estimated_gdp (processCountry rates r c) = None)
      \<and> (cc = [] \<longrightarrow> estimated_gdp (processCountry rates r c) = Some 0))
   \<and> (\<forall>R. exchange_rate (processCountry rates r c) = Some R \<longrightarrow>
         R \<noteq> 0
         \<and> estimated_gdp (processCountry rates r c)
             = Some (round_double
                 (round_double (raw_country.population c * randomMultiplier r) / R)))"
  by (auto simp add: estimatedGdp_of_def exchangeRate_of_def truthy_number_def truthy_string_def
        split: option.splits if_splits)

theorem zero_rate_is_absent_witness:
  "currencyCode_of nigeria = Some ''NGN'' \<and> (example_rates(''NGN'' \<mapsto> 0)) ''NGN'' = Some 0
   \<and> exchange_rate (processCountry (example_rates(''NGN'' \<mapsto> 0)) (1/2) nigeria) = None
   \<and> estimated_gdp (processCountry (example_rates(''NGN'' \<mapsto> 0)) (1/2) nigeria) = None"
  using zero_rate_is_absent [of nigeria "example_rates(''NGN'' \<mapsto> 0)" "1/2"]
  by (simp add: estimatedGdp_of_def exchangeRate_of_def truthy_number_def truthy_string_def)

text \<open>
  C10 as it is written fails for the empty string as currency code, when the rates map
  it to \<open>0\<close>: \<^verbatim>\<open>estimated_gdp\<close> is \<open>0\<close>, not null.
\<close>

theorem zero_rate_counterexample:
  "currencyCode_of empty_code_country = Some ''''
   \<and> rates_with_empty_key '''' = Some 0
   \<and> estimated_gdp (processCountry rates_with_empty_key (1/2) empty_code_country) \<noteq> None"
  by (simp add: rates_with_empty_key_def estimatedGdp_of_def exchangeRate_of_def
        truthy_number_def truthy_string_def)

subsection \<open>Case folding\<close>

lemma lower_char_idem: "lower_char (lower_char c) = lower_char c"
proof (cases "CHR ''A'' \<le> c \<and> c \<le> CHR ''Z''")
  case True
  define d where "d = char_of (of_char c + (32::nat))"
  from True have r: "65 \<le> (of_char c :: nat)" "(of_char c :: nat) \<le> 90"
    by (simp_all add: less_eq_char_def)
  then have "(of_char d :: nat) = of_char c + 32"
    by (simp add: d_def of_char_of)
  with r have "\<not> d \<le> CHR ''Z''"
    by (simp add: less_eq_char_def)
  then have "lower_char d = d"
    by (simp add: lower_char_def)
  moreover from True have "lower_char c = d"
    by (simp add: lower_char_def d_def)
  ultimately show ?thesis by simp
next
  case False
  then have "lower_char c = c"
    unfolding lower_char_def by (rule if_not_P)
  then show ?thesis by simp
qed

lemma LOWER_idem [simp]: "LOWER (LOWER s) = LOWER s"
  by (simp add: LOWER_def lower_char_idem)

subsection \<open>Validation and the processing loop\<close>

lemma is_int_Ints: "is_int x \<longleftrightarrow> x \<in> \<int>"
  by (auto simp add: is_int_def Ints_def)

lemma parse_empty_iff:
  "processedCountrySchema_parse p = [] \<longleftrightarrow>
     name p \<noteq> [] \<and> is_int (population p) \<and> 0 \<le> population p \<and>
     (case exchange_rate p of None \<Rightarrow> True | Some v \<Rightarrow> 0 < v)"
  by (auto simp add: processedCountrySchema_parse_def name_issues_def population_issues_def
        exchange_rate_issues_def split: option.splits)

lemma fold_update_keys:
  "fst ` set (fold (\<lambda>(field, message) details. AList.update field message details) issues acc)
     = fst ` set acc \<union> fst ` set issues"
proof (induction issues arbitrary: acc)
  case Nil
  then show ?case by simp
next
  case (Cons x issues)
  obtain field message where x: "x = (field, message)" by (cases x)
  show ?case
    by (simp add: x Cons.IH dom_update)
qed

lemma details_of_keys: "fst ` set (details_of issues) = fst ` set issues"
  by (simp add: details_of_def fold_update_keys)

lemma details_of_nonempty: "issues \<noteq> [] \<Longrightarrow> details_of issues \<noteq> []"
  using details_of_keys [of issues] by (cases issues) auto

lemma stamp_simps [simp]:
  "name (stamp p t) = name p" "population (stamp p t) = population p"
  "exchange_rate (stamp p t) = exchange_rate p" "estimated_gdp (stamp p t) = estimated_gdp p"
  "currency_code (stamp p t) = currency_code p" "region (stamp p t) = region p"
  "capital (stamp p t) = capital p" "flag_url (stamp p t) = flag_url p"
  "last_refreshed_at (stamp p t) = t"
  by (simp_all add: stamp_def processed_country.defs country_input.defs)

lemma with_id_simps [simp]:
  "name (with_id d i) = name d" "population (with_id d i) = population d"
  "exchange_rate (with_id d i) = exchange_rate d" "estimated_gdp (with_id d i) = estimated_gdp d"
  "currency_code (with_id d i) = currency_code d" "region (with_id d i) = region d"
  "capital (with_id d i) = capital d" "flag_url (with_id d i) = flag_url d"
  "last_refreshed_at (with_id d i) = last_refreshed_at d" "row_id (with_id d i) = i"
  by (simp_all add: with_id_def country_input.defs country.defs)

lemma process_all_Inr:
  "process_all rates t rnd i cs = Inr cands \<Longrightarrow>
     cands = map2 (\<lambda>k c. stamp (processCountry rates (rnd k) c) t) [i ..< i + length cs] cs
     \<and> (\<forall>k < length cs. processedCountrySchema_parse (processCountry rates (rnd (i + k)) (cs ! k)) = [])"
proof (induction cs arbitrary: i cands)
  case Nil
  then show ?case by simp
next
  case (Cons c cs)
  from Cons.prems obtain rest where
    p: "processedCountrySchema_parse (processCountry rates (rnd i) c) = []"
    and r: "process_all rates t rnd (Suc i) cs = Inr rest"
    and c: "cands = stamp (processCountry rates (rnd i) c) t # rest"
    by (auto simp add: Let_def split: list.splits sum.splits)
  from Cons.IH [OF r] have
    ih1: "rest = map2 (\<lambda>k c. stamp (processCountry rates (rnd k) c) t) [Suc i ..< Suc i + length cs] cs"
    and ih2: "\<forall>k < length cs. processedCountrySchema_parse (processCountry rates (rnd (Suc i + k)) (cs ! k)) = []"
    by simp_all
  have "[i ..< i + length (c # cs)] = i # [Suc i ..< Suc i + length cs]"
    by (simp add: upt_rec)
  with c ih1 have "cands = map2 (\<lambda>k c. stamp (processCountry rates (rnd k) c) t) [i ..< i + length (c # cs)] (c # cs)"
    by simp
  moreover have "\<forall>k < length (c # cs). processedCountrySchema_parse (processCountry rates (rnd (i + k)) ((c # cs) ! k)) = []"
  proof (intro allI impI)
    fix k assume "k < length (c # cs)"
    then show "processedCountrySchema_parse (processCountry rates (rnd (i + k)) ((c # cs) ! k)) = []"
      using p ih2 by (cases k) auto
  qed
  ultimately show ?case by blast
qed

lemma process_all_Inl:
  assumes "\<forall>k < length pre. processedCountrySchema_parse (processCountry rates (rnd (i + k)) (pre ! k)) = []"
    and "processedCountrySchema_parse (processCountry rates (rnd (i + length pre)) c) \<noteq> []"
  shows "process_all rates t rnd i (pre @ c # post) =
     Inl (Response 400 (ValidationBody ''Validation failed for country data'' (raw_country.name c)
        (details_of (processedCountrySchema_parse (processCountry rates (rnd (i + length pre)) c)))))"
  using assms
proof (induction pre arbitrary: i)
  case Nil
  then show ?case by (simp add: Let_def split: list.splits)
next
  case (Cons a pre)
  from Cons.prems(1) have a: "processedCountrySchema_parse (processCountry rates (rnd i) a) = []"
    by force
  have "\<forall>k < length pre. processedCountrySchema_parse (processCountry rates (rnd (Suc i + k)) (pre ! k)) = []"
  proof (intro allI impI)
    fix k assume "k < length pre"
    then have "Suc k < length (a # pre)" by simp
    from Cons.prems(1) [rule_format, OF this] show "processedCountrySchema_parse (processCountry rates (rnd (Suc i + k)) (pre ! k)) = []"
      by simp
  qed
  moreover from Cons.prems(2) have "processedCountrySchema_parse (processCountry rates (rnd (Suc i + length pre)) c) \<noteq> []"
    by simp
  ultimately have "process_all rates t rnd (Suc i) (pre @ c # post) = Inl (Response 400 (ValidationBody ''Validation failed for country data'' (raw_country.name c)
        (details_of (processedCountrySchema_parse (processCountry rates (rnd (Suc i + length pre)) c)))))"
    by (rule Cons.IH)
  with a show ?case by (simp add: Let_def)
qed

subsection \<open>Ordering and the replace transaction\<close>

lemma mset_insort_by: "mset (insort_by le x xs) = add_mset x (mset xs)"
  by (induction xs) auto

lemma mset_order_by: "mset (order_by le xs) = mset xs"
  by (induction xs) (auto simp add: order_by_def mset_insort_by)

lemma set_order_by: "set (order_by le xs) = set xs"
proof -
  have "set_mset (mset (order_by le xs)) = set_mset (mset xs)"
    by (simp only: mset_order_by)
  then show ?thesis by simp
qed

lemma length_order_by: "length (order_by le xs) = length xs"
proof -
  have "size (mset (order_by le xs)) = size (mset xs)"
    by (simp only: mset_order_by)
  then show ?thesis by simp
qed

lemma sorted_insort_by:
  assumes total: "\<And>a b. le a b \<or> le b a" and trans: "\<And>a b c. le a b \<Longrightarrow> le b c \<Longrightarrow> le a c"
  shows "sorted_wrt le xs \<Longrightarrow> sorted_wrt le (insort_by le x xs)"
proof (induction xs)
  case Nil
  then show ?case by simp
next
  case (Cons y ys)
  show ?case
  proof (cases "le x y")
    case True
    with Cons.prems trans show ?thesis by auto
  next
    case False
    with total have yx: "le y x" by blast
    have "set_mset (mset (insort_by le x ys)) = set_mset (add_mset x (mset ys))"
      by (simp only: mset_insort_by)
    then have "set (insort_by le x ys) = insert x (set ys)"
      by simp
    with Cons False yx show ?thesis by auto
  qed
qed

lemma sorted_order_by:
  assumes total: "\<And>a b. le a b \<or> le b a" and trans: "\<And>a b c. le a b \<Longrightarrow> le b c \<Longrightarrow> le a c"
  shows "sorted_wrt le (order_by le xs)"
proof (induction xs)
  case Nil
  then show ?case by (simp add: order_by_def)
next
  case (Cons x xs)
  have "order_by le (x # xs) = insort_by le x (order_by le xs)"
    by (simp add: order_by_def)
  with Cons sorted_insort_by [of le, OF total trans] show ?case by simp
qed




lemma sorted_last_refreshed_at_desc:
  "sorted_wrt last_refreshed_at_desc (order_by last_refreshed_at_desc xs)"
  by (rule sorted_order_by) (auto simp add: last_refreshed_at_desc_def)

lemma map_name_map2_with_id:
  "length ids = length data \<Longrightarrow> map (\<lambda>r. f (name r)) (map2 with_id data ids) = map (\<lambda>d. f (name d)) data"
  by (induction data ids rule: list_induct2') auto

lemma replace_transaction_eq:
  "replace_transaction first_id data table =
     (if distinct (map (\<lambda>d. collation_key (name d)) data)
      then Some (map2 with_id data [first_id ..< first_id + length data]) else None)"
proof -
  have len: "length [first_id ..< first_id + length data] = length data" by simp
  note k = map_name_map2_with_id [OF len, of collation_key]
  show ?thesis
    unfolding replace_transaction_def createMany_def deleteMany_def Country_name_key_def
      Let_def append_Nil k ..
qed

lemma replace_transaction_key:
  assumes "replace_transaction first_id data table = Some t"
  shows "Country_name_key t"
proof -
  have len: "length [first_id ..< first_id + length data] = length data" by simp
  note k = map_name_map2_with_id [OF len, of collation_key]
  from assms have d: "distinct (map (\<lambda>d. collation_key (name d)) data)"
    and t: "t = map2 with_id data [first_id ..< first_id + length data]"
    by (simp_all add: replace_transaction_eq split: if_splits)
  show ?thesis unfolding Country_name_key_def t k by (rule d)
qed

lemma same_name_not_distinct_key:
  "\<not> distinct (map name data) \<Longrightarrow> \<not> distinct (map (\<lambda>d. collation_key (name d)) data)"
proof -
  assume n: "\<not> distinct (map name data)"
  have e: "map (\<lambda>d. collation_key (name d)) data = map collation_key (map name data)"
    by simp
  show "\<not> distinct (map (\<lambda>d. collation_key (name d)) data)"
    unfolding e
  proof
    assume "distinct (map collation_key (map name data))"
    then have "distinct (map name data) \<and> inj_on collation_key (set (map name data))"
      by (rule distinct_map [THEN iffD1])
    with n show False by blast
  qed
qed

subsection \<open>The refresh handler\<close>

lemma valid_candidate_parse: "valid_candidate p \<longleftrightarrow> processedCountrySchema_parse p = []"
  by (simp add: valid_candidate_def parse_empty_iff is_int_Ints)

lemma process_all_Inl_status: "process_all rates t rnd i cs = Inl resp \<Longrightarrow> status resp = 400"
  by (induction cs arbitrary: i) (auto simp add: Let_def split: list.splits sum.splits)

lemma refresh_200:
  assumes "refreshCountries env st = (resp, st')" and "status resp = 200"
  shows "\<exists>cs rates cands. fetchCountries env = Some cs \<and> fetchExchangeRates env = Some rates
       \<and> process_all rates (now env) (random env) 0 cs = Inr cands
       \<and> replace_transaction (next_id env) cands (rows st) = Some (rows st')"
  using assms
  by (auto simp add: refreshCountries_def Let_def internal_server_error_def
        split: option.splits sum.splits dest: process_all_Inl_status)

lemma lower_examples [simp]:
  "LOWER ''Nigeria'' = ''nigeria''" "LOWER ''Bouvet Island'' = ''bouvet island''"
  "LOWER ''NIGERIA'' = ''nigeria''" "LOWER ''nigeria'' = ''nigeria''" "LOWER ''image'' = ''image''"
  by code_simp+

lemma example_row_nigeria:
  "with_id (stamp (processCountry example_rates (1/2) nigeria) example_now) (Suc 0) = nigeria_row"
  by (simp add: with_id_def stamp_def processCountry_def nigeria_def nigeria_row_def Let_def
      processed_country.defs country_input.defs country.defs currencyCode_of_def
      exchangeRate_of_def estimatedGdp_of_def truthy_number_def truthy_string_def or_null_def
      example_multipliers round_double_examples)

lemma example_row_bouvet:
  "with_id (stamp (processCountry example_rates (1/2) bouvet_island) example_now) 2 = bouvet_island_row"
  by (simp add: with_id_def stamp_def processCountry_def bouvet_island_def bouvet_island_row_def Let_def
      processed_country.defs country_input.defs country.defs currencyCode_of_def
      exchangeRate_of_def estimatedGdp_of_def truthy_number_def truthy_string_def or_null_def
      example_multipliers round_double_examples)

lemma example_parse:
  "processedCountrySchema_parse (processCountry example_rates r nigeria) = []"
  "processedCountrySchema_parse (processCountry example_rates r bouvet_island) = []"
  by (simp_all add: parse_empty_iff exchangeRate_of_def truthy_number_def is_int_def nigeria_def bouvet_island_def currencyCode_of_def)

lemma example_process_all:
  "process_all example_rates example_now (\<lambda>i. 1/2) 0 [nigeria, bouvet_island]
     = Inr [stamp (processCountry example_rates (1/2) nigeria) example_now,
            stamp (processCountry example_rates (1/2) bouvet_island) example_now]"
  by (simp add: example_parse Let_def)

lemma example_names [simp]:
  "raw_country.name nigeria = ''Nigeria''" "raw_country.name bouvet_island = ''Bouvet Island''"
  by (simp_all add: nigeria_def bouvet_island_def)

lemma example_transaction:
  "replace_transaction (Suc 0)
     [stamp (processCountry example_rates (1/2) nigeria) example_now,
      stamp (processCountry example_rates (1/2) bouvet_island) example_now] []
   = Some [nigeria_row, bouvet_island_row]"
proof -
  have ids: "[Suc 0 ..< Suc 0 + length [a, b]] = [Suc 0, 2]" for a b :: country_input
    by (simp add: upt_rec)
  show ?thesis
    unfolding replace_transaction_eq ids
    by (simp add: collation_key_def example_row_nigeria example_row_bouvet)
qed

lemma example_refresh:
  "refreshCountries example_env empty_state =
     (Response 200 (MessageBody ''Countries refreshed successfully''), refreshed_state)"
  by (simp add: refreshCountries_def example_env_def example_process_all example_transaction
        empty_state_def refreshed_state_def Let_def del: process_all.simps)

lemma parse_keys:
  "fst ` set (processedCountrySchema_parse p) \<subseteq> {''name'', ''population'', ''exchange_rate''}"
  "''name'' \<in> fst ` set (processedCountrySchema_parse p) \<longleftrightarrow> name p = []"
  "''population'' \<in> fst ` set (processedCountrySchema_parse p)
     \<longleftrightarrow> \<not> (population p \<in> \<int> \<and> 0 \<le> population p)"
  "''exchange_rate'' \<in> fst ` set (processedCountrySchema_parse p)
     \<longleftrightarrow> (\<exists>v. exchange_rate p = Some v \<and> \<not> 0 < v)"
  by (cases "exchange_rate p";
      auto simp add: processedCountrySchema_parse_def name_issues_def population_issues_def
        exchange_rate_issues_def is_int_Ints split: if_splits)+

lemma refresh_validation_failure:
  assumes fc: "fetchCountries env = Some cs"
    and fr: "fetchExchangeRates env = Some rates"
    and i: "i < length cs"
    and ok: "\<forall>k<i. valid_candidate (processCountry rates (random env k) (cs ! k))"
    and bad: "\<not> valid_candidate (processCountry rates (random env i) (cs ! i))"
  shows "refreshCountries env st =
           (Response 400 (ValidationBody ''Validation failed for country data''
              (raw_country.name (cs ! i))
              (details_of (processedCountrySchema_parse (processCountry rates (random env i) (cs ! i))))), st)"
proof -
  let ?pre = "take i cs" and ?post = "drop (Suc i) cs"
  have cs: "cs = ?pre @ cs ! i # ?post"
    using i by (simp add: id_take_nth_drop)
  have len: "length ?pre = i" using i by simp
  have 1: "\<forall>k < length ?pre. processedCountrySchema_parse (processCountry rates (random env (0 + k)) (?pre ! k)) = []"
    using ok len by (simp add: valid_candidate_parse)
  have 2: "processedCountrySchema_parse (processCountry rates (random env (0 + length ?pre)) (cs ! i)) \<noteq> []"
    using bad len by (simp add: valid_candidate_parse)
  have "process_all rates (now env) (random env) 0 (?pre @ cs ! i # ?post) =
     Inl (Response 400 (ValidationBody ''Validation failed for country data'' (raw_country.name (cs ! i))
        (details_of (processedCountrySchema_parse (processCountry rates (random env (0 + length ?pre)) (cs ! i))))))"
    using 1 2 by (rule process_all_Inl)
  with cs len have "process_all rates (now env) (random env) 0 cs =
     Inl (Response 400 (ValidationBody ''Validation failed for country data'' (raw_country.name (cs ! i))
        (details_of (processedCountrySchema_parse (processCountry rates (random env i) (cs ! i))))))"
    by simp
  then show ?thesis
    by (simp add: refreshCountries_def fc fr)
qed

lemma process_all_total:
  assumes "\<forall>k < length cs. valid_candidate (processCountry rates (rnd (i + k)) (cs ! k))"
  shows "\<exists>cands. process_all rates t rnd i cs = Inr cands"
  using assms
proof (induction cs arbitrary: i)
  case Nil
  then show ?case by simp
next
  case (Cons c cs)
  from Cons.prems have c: "processedCountrySchema_parse (processCountry rates (rnd i) c) = []"
    by (force simp add: valid_candidate_parse)
  have "\<forall>k < length cs. valid_candidate (processCountry rates (rnd (Suc i + k)) (cs ! k))"
  proof (intro allI impI)
    fix k assume "k < length cs"
    then have "Suc k < length (c # cs)" by simp
    from Cons.prems [rule_format, OF this]
    show "valid_candidate (processCountry rates (rnd (Suc i + k)) (cs ! k))" by simp
  qed
  from Cons.IH [OF this] obtain rest where "process_all rates t rnd (Suc i) cs = Inr rest" ..
  with c show ?case by (simp add: Let_def)
qed

text \<open>
  C4. Let both fetches succeed. If the candidate of country \<open>i\<close> is the first that is not
  valid (its name is empty, or its population is not a non-negative integer, or its
  exchange rate is present and not positive), the handler answers 400 with the name of
  that country and the details of the failure: the details are not empty, they have an
  entry for exactly the fields that failed, and the state (the table and the files) is
  the one before the request. If every candidate is valid the answer is not a 400.
\<close>

theorem validation_failure_aborts:
  assumes "fetchCountries env = Some cs" and "fetchExchangeRates env = Some rates"
  shows "(\<forall>i. i < length cs
            \<and> (\<forall>k<i. valid_candidate (processCountry rates (random env k) (cs ! k)))
            \<and> \<not> valid_candidate (processCountry rates (random env i) (cs ! i)) \<longrightarrow>
          (let p = processCountry rates (random env i) (cs ! i);
               details = details_of (processedCountrySchema_parse p)
           in refreshCountries env st =
                (Response 400 (ValidationBody ''Validation failed for country data''
                   (raw_country.name (cs ! i)) details), st)
              \<and> details \<noteq> []
              \<and> fst ` set details \<subseteq> {''name'', ''population'', ''exchange_rate''}
              \<and> (''name'' \<in> fst ` set details \<longleftrightarrow> name p = [])
              \<and> (''population'' \<in> fst ` set details
                    \<longleftrightarrow> \<not> (population p \<in> \<int> \<and> 0 \<le> population p))
              \<and> (''exchange_rate'' \<in> fst ` set details
                    \<longleftrightarrow> (\<exists>v. exchange_rate p = Some v \<and> \<not> 0 < v))))
       \<and> ((\<forall>k < length cs. valid_candidate (processCountry rates (random env k) (cs ! k))) \<longrightarrow>
            status (fst (refreshCountries env st)) \<noteq> 400)"
proof (intro conjI allI impI)
  fix i
  assume h: "i < length cs
            \<and> (\<forall>k<i. valid_candidate (processCountry rates (random env k) (cs ! k)))
            \<and> \<not> valid_candidate (processCountry rates (random env i) (cs ! i))"
  let ?p = "processCountry rates (random env i) (cs ! i)"
  from h have ne: "processedCountrySchema_parse ?p \<noteq> []"
    by (simp add: valid_candidate_parse)
  from h assms have "refreshCountries env st =
           (Response 400 (ValidationBody ''Validation failed for country data''
              (raw_country.name (cs ! i)) (details_of (processedCountrySchema_parse ?p))), st)"
    by (intro refresh_validation_failure) simp_all
  moreover have "details_of (processedCountrySchema_parse ?p) \<noteq> []"
    using ne by (rule details_of_nonempty)
  ultimately show "let p = ?p; details = details_of (processedCountrySchema_parse p)
           in refreshCountries env st =
                (Response 400 (ValidationBody ''Validation failed for country data''
                   (raw_country.name (cs ! i)) details), st)
              \<and> details \<noteq> []
              \<and> fst ` set details \<subseteq> {''name'', ''population'', ''exchange_rate''}
              \<and> (''name'' \<in> fst ` set details \<longleftrightarrow> name p = [])
              \<and> (''population'' \<in> fst ` set details
                    \<longleftrightarrow> \<not> (population p \<in> \<int> \<and> 0 \<le> population p))
              \<and> (''exchange_rate'' \<in> fst ` set details
                    \<longleftrightarrow> (\<exists>v. exchange_rate p = Some v \<and> \<not> 0 < v))"
    unfolding Let_def details_of_keys
    using parse_keys [of ?p] by blast
next
  assume "\<forall>k < length cs. valid_candidate (processCountry rates (random env k) (cs ! k))"
  then have "\<forall>k < length cs. valid_candidate (processCountry rates (random env (0 + k)) (cs ! k))"
    by simp
  then obtain cands where "process_all rates (now env) (random env) 0 cs = Inr cands"
    using process_all_total by blast
  then show "status (fst (refreshCountries env st)) \<noteq> 400"
    using assms
    by (simp add: refreshCountries_def Let_def internal_server_error_def split: option.splits)
qed

lemma negative_population_invalid:
  "\<not> valid_candidate (processCountry rates r negative_population_country)"
  by (simp add: valid_candidate_def negative_population_country_def)

lemma negative_population_name: "raw_country.name negative_population_country = ''Nowhere''"
  by (simp add: negative_population_country_def)

lemma nigeria_valid: "valid_candidate (processCountry example_rates r nigeria)"
  by (simp add: valid_candidate_parse example_parse)

lemma negative_population_details:
  "details_of (processedCountrySchema_parse (processCountry example_rates r negative_population_country))
     = [(''population'', ''Number must be greater than or equal to 0'')]"
  by (simp add: details_of_def processedCountrySchema_parse_def name_issues_def
        population_issues_def exchange_rate_issues_def is_int_def exchangeRate_of_def
        currencyCode_of_def negative_population_country_def)

theorem validation_failure_aborts_witness:
  "fetchCountries invalid_env = Some [nigeria, negative_population_country, bouvet_island]
   \<and> fetchExchangeRates invalid_env = Some example_rates
   \<and> valid_candidate (processCountry example_rates (random invalid_env 0) nigeria)
   \<and> \<not> valid_candidate (processCountry example_rates (random invalid_env 1) negative_population_country)
   \<and> refreshCountries invalid_env refreshed_state =
       (Response 400 (ValidationBody ''Validation failed for country data'' ''Nowhere''
          [(''population'', ''Number must be greater than or equal to 0'')]), refreshed_state)"
proof -
  have fc: "fetchCountries invalid_env = Some [nigeria, negative_population_country, bouvet_island]"
    and fr: "fetchExchangeRates invalid_env = Some example_rates"
    by (simp_all add: invalid_env_def example_env_def)
  note t = validation_failure_aborts [OF fc fr, of refreshed_state, THEN conjunct1, rule_format, of 1]
  have "\<forall>k<1. valid_candidate (processCountry example_rates (random invalid_env k)
            ([nigeria, negative_population_country, bouvet_island] ! k))"
    by (simp add: nigeria_valid)
  with t show ?thesis
    by (simp add: fc fr nigeria_valid negative_population_invalid negative_population_details
          Let_def negative_population_name)
qed

lemma process_all_length_stamp:
  assumes "process_all rates t rnd i cs = Inr cands"
  shows "length cands = length cs \<and> (\<forall>d\<in>set cands. last_refreshed_at d = t \<and> valid_candidate d)
     \<and> map name cands = map raw_country.name cs"
  using assms
proof (induction cs arbitrary: i cands)
  case Nil
  then show ?case by simp
next
  case (Cons c cs)
  from Cons.prems obtain rest where
    p: "processedCountrySchema_parse (processCountry rates (rnd i) c) = []"
    and r: "process_all rates t rnd (Suc i) cs = Inr rest"
    and c: "cands = stamp (processCountry rates (rnd i) c) t # rest"
    by (auto simp add: Let_def split: list.splits sum.splits)
  from p have "processedCountrySchema_parse (stamp (processCountry rates (rnd i) c) t) = []"
    by (simp add: processedCountrySchema_parse_def)
  then have v: "valid_candidate (stamp (processCountry rates (rnd i) c) t)"
    by (simp add: valid_candidate_parse)
  from Cons.IH [OF r] c v show ?case by simp
qed

lemma rows_of_transaction:
  assumes "replace_transaction first_id data table = Some t"
  shows "length t = length data \<and> map last_refreshed_at t = map last_refreshed_at data
     \<and> map name t = map name data"
proof -
  from assms have t: "t = map2 with_id data [first_id ..< first_id + length data]"
    by (simp add: replace_transaction_eq split: if_splits)
  have "length ids = length data \<Longrightarrow>
      length (map2 with_id data ids) = length data
      \<and> map last_refreshed_at (map2 with_id data ids) = map last_refreshed_at data
      \<and> map name (map2 with_id data ids) = map name data" for ids
    by (induction data ids rule: list_induct2') auto
  from this [of "[first_id ..< first_id + length data]"] show ?thesis
    unfolding t by simp
qed

text \<open>
  C5. When \<^verbatim>\<open>refreshCountries\<close> answers 200, both fetches succeeded, every country gave
  a valid candidate, the table holds as many rows as there are candidates (one for each
  fetched country, with its name, in the order of the fetch), and
  \<^verbatim>\<open>last_refreshed_at\<close> of every row is the timestamp \<^verbatim>\<open>now\<close> of the cycle.
\<close>

theorem successful_refresh_replaces_all:
  assumes "refreshCountries env st = (resp, st')" and "status resp = 200"
  shows "\<exists>cs rates cands.
           fetchCountries env = Some cs \<and> fetchExchangeRates env = Some rates
         \<and> process_all rates (now env) (random env) 0 cs = Inr cands
         \<and> length cands = length cs
         \<and> (\<forall>d\<in>set cands. valid_candidate d)
         \<and> count_rows (rows st') = length cands
         \<and> map name (rows st') = map raw_country.name cs
         \<and> (\<forall>r\<in>set (rows st'). last_refreshed_at r = now env)"
proof -
  from refresh_200 [OF assms] obtain cs rates cands where
    fc: "fetchCountries env = Some cs" and fr: "fetchExchangeRates env = Some rates"
    and pa: "process_all rates (now env) (random env) 0 cs = Inr cands"
    and tr: "replace_transaction (next_id env) cands (rows st) = Some (rows st')"
    by blast
  note p = process_all_length_stamp [OF pa]
  note r = rows_of_transaction [OF tr]
  from p r have "set (map last_refreshed_at (rows st')) \<subseteq> {now env}"
    by auto
  then have "\<forall>r\<in>set (rows st'). last_refreshed_at r = now env"
    by auto
  with fc fr pa p r show ?thesis
    by (auto simp add: count_rows_def)
qed

lemma later_row:
  "with_id (stamp (processCountry example_rates (1/2) nigeria) later_now) 3 = later_nigeria_row"
  by (simp add: with_id_def stamp_def processCountry_def nigeria_def nigeria_row_def
      later_nigeria_row_def Let_def
      processed_country.defs country_input.defs country.defs currencyCode_of_def
      exchangeRate_of_def estimatedGdp_of_def truthy_number_def truthy_string_def or_null_def
      example_multipliers round_double_examples)

lemma later_transaction:
  "replace_transaction 3 [stamp (processCountry example_rates (1/2) nigeria) later_now] table
     = Some [later_nigeria_row]"
proof -
  have ids: "[3 ..< 3 + length [a]] = [3::nat]" for a :: country_input
    by (simp add: upt_rec)
  show ?thesis
    unfolding replace_transaction_eq ids
    by (simp add: later_row)
qed

lemma later_refresh:
  "refreshCountries later_env refreshed_state =
     (Response 200 (MessageBody ''Countries refreshed successfully''), later_state)"
  by (simp add: refreshCountries_def later_env_def example_env_def example_parse
        later_transaction later_state_def refreshed_state_def Let_def)

theorem successful_refresh_replaces_all_witness:
  "rows refreshed_state = [nigeria_row, bouvet_island_row]
   \<and> last_refreshed_at nigeria_row \<noteq> now later_env
   \<and> last_refreshed_at bouvet_island_row \<noteq> now later_env
   \<and> refreshCountries later_env refreshed_state
       = (Response 200 (MessageBody ''Countries refreshed successfully''), later_state)
   \<and> status (Response 200 (MessageBody ''Countries refreshed successfully'')) = 200
   \<and> fetchCountries later_env = Some [nigeria]
   \<and> count_rows (rows later_state) = 1
   \<and> rows later_state = [later_nigeria_row]
   \<and> last_refreshed_at later_nigeria_row = now later_env"
proof -
  have s: "status (Response 200 (MessageBody ''Countries refreshed successfully'')) = 200"
    by simp
  from successful_refresh_replaces_all [OF later_refresh s]
  obtain cs and cands :: "country_input list" where fc: "fetchCountries later_env = Some cs"
    and l: "length cands = length cs"
    and c: "count_rows (rows later_state) = length cands"
    and ts: "\<forall>r\<in>set (rows later_state). last_refreshed_at r = now later_env"
    by blast
  have e: "fetchCountries later_env = Some [nigeria]"
    by (simp add: later_env_def)
  with fc have "cs = [nigeria]" by simp
  with l c have n: "count_rows (rows later_state) = 1" by simp
  have r: "rows later_state = [later_nigeria_row]"
    by (simp add: later_state_def)
  with ts have t: "last_refreshed_at later_nigeria_row = now later_env"
    by simp
  have old: "rows refreshed_state = [nigeria_row, bouvet_island_row]"
    "last_refreshed_at nigeria_row \<noteq> now later_env"
    "last_refreshed_at bouvet_island_row \<noteq> now later_env"
    by (simp_all add: refreshed_state_def nigeria_row_def bouvet_island_row_def later_env_def
          later_now_def example_now_def)
  from old later_refresh s e n r t show ?thesis by blast
qed

subsection \<open>Uniqueness of names\<close>

lemma refresh_rows:
  "rows (snd (refreshCountries env st)) = rows st
   \<or> (\<exists>cands. replace_transaction (next_id env) cands (rows st)
          = Some (rows (snd (refreshCountries env st))))"
  by (auto simp add: refreshCountries_def Let_def split: option.splits sum.splits)

lemma refresh_preserves_key:
  assumes "Country_name_key (rows st)"
  shows "Country_name_key (rows (snd (refreshCountries env st)))"
  using refresh_rows [of env st]
proof
  assume "rows (snd (refreshCountries env st)) = rows st"
  with assms show ?thesis by simp
next
  assume "\<exists>cands. replace_transaction (next_id env) cands (rows st)
          = Some (rows (snd (refreshCountries env st)))"
  then obtain cands where "replace_transaction (next_id env) cands (rows st)
          = Some (rows (snd (refreshCountries env st)))" ..
  then show ?thesis by (rule replace_transaction_key)
qed

lemma filter_preserves_key:
  "Country_name_key table \<Longrightarrow> Country_name_key (filter P table)"
  unfolding Country_name_key_def by (rule distinct_map_filter)

lemma delete_preserves_key:
  "Country_name_key (rows st) \<Longrightarrow> Country_name_key (rows (snd (deleteCountry n st)))"
  by (auto simp add: deleteCountry_def delete_by_name_def filter_preserves_key
        split: list.splits option.splits if_splits)

lemma app_preserves_key:
  "Country_name_key (rows st) \<Longrightarrow> Country_name_key (rows (snd (app env req st)))"
  by (auto simp add: app_def run_handler_def refresh_preserves_key delete_preserves_key
        split: option.splits handler.splits prod.splits)

lemma reachable_name_key: "reachable st \<Longrightarrow> Country_name_key (rows st)"
proof (induction rule: reachable.induct)
  case (start st)
  then show ?case by (simp add: Country_name_key_def)
next
  case (request st env req)
  from request.IH show ?case by (rule app_preserves_key)
qed

lemma key_distinct_names: "Country_name_key table \<Longrightarrow> distinct (map name table)"
proof -
  assume k: "Country_name_key table"
  have "map (\<lambda>r. collation_key (name r)) table = map collation_key (map name table)"
    by simp
  with k have "distinct (map collation_key (map name table))"
    by (simp only: Country_name_key_def)
  then have "distinct (map name table) \<and> inj_on collation_key (set (map name table))"
    by (rule distinct_map [THEN iffD1])
  then show ?thesis ..
qed

text \<open>
  C6. If the validated candidates of a refresh hold two rows with the same name, the
  transaction fails: the handler answers 500 and the state is the one before the request.
  In every state the server can reach, the unique index on \<^verbatim>\<open>name\<close> holds, and so no two
  rows have the same name.
\<close>

theorem duplicate_names_abort:
  "(\<forall>cs rates cands.
      fetchCountries env = Some cs \<and> fetchExchangeRates env = Some rates
      \<and> process_all rates (now env) (random env) 0 cs = Inr cands
      \<and> \<not> distinct (map name cands) \<longrightarrow>
      refreshCountries env st = (internal_server_error, st))
   \<and> (reachable st \<longrightarrow>
        Country_name_key (rows st) \<and> distinct (map name (rows st)))"
proof (intro conjI allI impI)
  fix cs rates cands
  assume h: "fetchCountries env = Some cs \<and> fetchExchangeRates env = Some rates
      \<and> process_all rates (now env) (random env) 0 cs = Inr cands
      \<and> \<not> distinct (map name cands)"
  then have "\<not> distinct (map (\<lambda>d. collation_key (name d)) cands)"
    by (simp add: same_name_not_distinct_key)
  then have "replace_transaction (next_id env) cands (rows st) = None"
    by (simp add: replace_transaction_eq)
  with h show "refreshCountries env st = (internal_server_error, st)"
    by (simp add: refreshCountries_def)
next
  assume "reachable st"
  then show "Country_name_key (rows st)" by (rule reachable_name_key)
  then show "distinct (map name (rows st))" by (rule key_distinct_names)
qed

lemma reachable_refreshed_state: "reachable refreshed_state"
proof -
  have "reachable empty_state"
    by (rule reachable.start) (simp add: empty_state_def)
  then have "reachable (snd (app example_env refresh_request empty_state))"
    by (rule reachable.request)
  moreover have "app example_env refresh_request empty_state
      = refreshCountries example_env empty_state"
    by (simp add: app_def refresh_request_def router_def run_handler_def)
  ultimately show ?thesis by (simp add: example_refresh)
qed

lemma duplicate_process_all:
  "process_all example_rates example_now (\<lambda>i. 1/2) 0 [nigeria, nigeria]
     = Inr [stamp (processCountry example_rates (1/2) nigeria) example_now,
            stamp (processCountry example_rates (1/2) nigeria) example_now]"
  by (simp add: example_parse Let_def)

theorem duplicate_names_abort_witness:
  "fetchCountries duplicate_env = Some [nigeria, nigeria]
   \<and> fetchExchangeRates duplicate_env = Some example_rates
   \<and> \<not> distinct (map name
          [stamp (processCountry example_rates (1/2) nigeria) example_now,
           stamp (processCountry example_rates (1/2) nigeria) example_now])
   \<and> refreshCountries duplicate_env refreshed_state = (internal_server_error, refreshed_state)
   \<and> reachable refreshed_state
   \<and> distinct (map name (rows refreshed_state))"
proof -
  note t = duplicate_names_abort [of duplicate_env refreshed_state]
  have fc: "fetchCountries duplicate_env = Some [nigeria, nigeria]"
    and fr: "fetchExchangeRates duplicate_env = Some example_rates"
    and pa: "process_all example_rates (now duplicate_env) (random duplicate_env) 0 [nigeria, nigeria]
      = Inr [stamp (processCountry example_rates (1/2) nigeria) example_now,
            stamp (processCountry example_rates (1/2) nigeria) example_now]"
    by (simp_all add: duplicate_env_def example_env_def duplicate_process_all del: process_all.simps)
  have nd: "\<not> distinct (map name
          [stamp (processCountry example_rates (1/2) nigeria) example_now,
           stamp (processCountry example_rates (1/2) nigeria) example_now])"
    by simp
  from t fc fr pa nd have "refreshCountries duplicate_env refreshed_state
      = (internal_server_error, refreshed_state)"
    by blast
  moreover from t reachable_refreshed_state have "distinct (map name (rows refreshed_state))"
    by blast
  ultimately show ?thesis
    using fc fr nd reachable_refreshed_state by blast
qed

subsection \<open>Lookup and deletion by name\<close>









lemma lower_more_examples [simp]:
  "LOWER ''Narnia'' = ''narnia''" "LOWER ''nIgErIa'' = ''nigeria''"
  by code_simp+

lemma example_row_names [simp]:
  "name nigeria_row = ''Nigeria''" "name bouvet_island_row = ''Bouvet Island''"
  by (simp_all add: nigeria_row_def bouvet_island_row_def)



subsection \<open>Listing\<close>




lemma lower_regions [simp]:
  "LOWER ''Africa'' = ''africa''" "LOWER ''africa'' = ''africa''"
  "LOWER ''Antarctic Ocean'' = ''antarctic ocean''"
  by code_simp+

lemma example_row_fields [simp]:
  "region nigeria_row = Some ''Africa''" "region bouvet_island_row = Some ''Antarctic Ocean''"
  "currency_code nigeria_row = Some ''NGN''" "currency_code bouvet_island_row = Some ''NOK''"
  "estimated_gdp nigeria_row = Some (206139589 * 1500 / 1600)"
  "estimated_gdp bouvet_island_row = Some 0"
  by (simp_all add: nigeria_row_def bouvet_island_row_def)

lemma example_rows [simp]: "rows refreshed_state = [nigeria_row, bouvet_island_row]"
  by (simp add: refreshed_state_def)



lemma atlantis_fields [simp]:
  "region atlantis_row = Some ''Africa''" "currency_code atlantis_row = Some ''ATL''"
  "estimated_gdp atlantis_row = None" "name atlantis_row = ''Atlantis''"
  by (simp_all add: atlantis_row_def)

lemma lower_atlantis [simp]: "LOWER ''Atlantis'' = ''atlantis''"
  by code_simp

lemma listing_rows [simp]: "rows listing_state = [nigeria_row, atlantis_row, bouvet_island_row]"
  by (simp add: listing_state_def)





subsection \<open>Status\<close>

lemma latest_is_head:
  assumes "order_by last_refreshed_at_desc xs = y # ys"
  shows "last_refreshed_at y = Max (last_refreshed_at ` set xs)"
proof -
  have "sorted_wrt last_refreshed_at_desc (y # ys)"
    using sorted_last_refreshed_at_desc [of xs] assms by simp
  then have le: "\<forall>z\<in>set ys. last_refreshed_at z \<le> last_refreshed_at y"
    by (simp add: last_refreshed_at_desc_def)
  have s: "set xs = set (y # ys)"
    using set_order_by [of last_refreshed_at_desc xs] assms by simp
  show ?thesis
  proof (rule Max_eqI [symmetric])
    show "finite (last_refreshed_at ` set xs)" by simp
    show "last_refreshed_at y \<in> last_refreshed_at ` set xs" by (simp add: s)
    fix t assume "t \<in> last_refreshed_at ` set xs"
    with le show "t \<le> last_refreshed_at y" by (auto simp add: s)
  qed
qed

text \<open>
  C9. \<^verbatim>\<open>getStatus\<close> answers 200 with the number of rows and the latest
  \<^verbatim>\<open>last_refreshed_at\<close> of the table, which is null when the table is empty: on the empty
  table the body is \<^verbatim>\<open>{total_countries: 0, last_refreshed_at: null}\<close>. The router sends
  \<^verbatim>\<open>GET /status\<close> to this handler.
\<close>

theorem status_reports_count_and_latest:
  "getStatus st =
     Response 200 (StatusBody (length (rows st))
       (if rows st = [] then None else Some (Max (last_refreshed_at ` set (rows st)))))
   \<and> (rows st = [] \<longrightarrow> getStatus st = Response 200 (StatusBody 0 None))
   \<and> (\<forall>env req. http_method req = GET \<and> path req = [''status''] \<longrightarrow>
         app env req st = (getStatus st, st))"
proof (intro conjI allI impI)
  show g: "getStatus st =
     Response 200 (StatusBody (length (rows st))
       (if rows st = [] then None else Some (Max (last_refreshed_at ` set (rows st)))))"
  proof (cases "order_by last_refreshed_at_desc (rows st)")
    case Nil
    then have "length (rows st) = 0"
      using length_order_by [of last_refreshed_at_desc "rows st"] by simp
    with Nil show ?thesis
      by (simp add: getStatus_def findMany_def count_rows_def)
  next
    case (Cons y ys)
    then have "rows st \<noteq> []"
      using length_order_by [of last_refreshed_at_desc "rows st"] by auto
    with Cons latest_is_head [OF Cons] show ?thesis
      by (simp add: getStatus_def findMany_def count_rows_def)
  qed
  {
    assume "rows st = []"
    with g show "getStatus st = Response 200 (StatusBody 0 None)" by simp
  }
next
  fix env and req :: request
  assume "http_method req = GET \<and> path req = [''status'']"
  then show "app env req st = (getStatus st, st)"
    by (simp add: app_def router_def run_handler_def)
qed

lemma mixed_rows [simp]: "rows mixed_state = [bouvet_island_row, later_nigeria_row, nigeria_row]"
  by (simp add: mixed_state_def)

lemma example_timestamps [simp]:
  "last_refreshed_at nigeria_row = example_now" "last_refreshed_at bouvet_island_row = example_now"
  "last_refreshed_at later_nigeria_row = later_now" "\<not> later_now \<le> example_now"
  "example_now \<le> later_now"
  by (simp_all add: nigeria_row_def bouvet_island_row_def later_nigeria_row_def
        example_now_def later_now_def)

theorem status_reports_count_and_latest_witness:
  "rows empty_state = []
   \<and> http_method status_request = GET \<and> path status_request = [''status'']
   \<and> app example_env status_request empty_state = (Response 200 (StatusBody 0 None), empty_state)
   \<and> getStatus mixed_state = Response 200 (StatusBody 3 (Some later_now))"
proof -
  note e = status_reports_count_and_latest [of empty_state]
  note r = status_reports_count_and_latest [of mixed_state]
  have s: "rows empty_state = []" by (simp add: empty_state_def)
  have q: "http_method status_request = GET \<and> path status_request = [''status'']"
    by (simp add: status_request_def)
  from e s have "getStatus empty_state = Response 200 (StatusBody 0 None)" by blast
  moreover from e q have "app example_env status_request empty_state = (getStatus empty_state, empty_state)"
    by blast
  ultimately have a: "app example_env status_request empty_state
      = (Response 200 (StatusBody 0 None), empty_state)" by simp
  from r have b: "getStatus mixed_state = Response 200 (StatusBody 3 (Some later_now))"
    by (simp add: max_def)
  from s q a b show ?thesis by blast
qed

subsection \<open>The image endpoint\<close>

lemma image_route:
  assumes "http_method req = GET" and "path req = [''countries'', ''image'']"
  shows "app env req st = (getCountry ''image'' st, st)"
  using assms by (simp add: app_def router_def run_handler_def)

text \<open>
  C3 fails on the code. The router registers \<^verbatim>\<open>GET /countries/:name\<close> before
  \<^verbatim>\<open>GET /countries/image\<close>, so a request for the image is handled by \<^verbatim>\<open>getCountry\<close>
  with the name \<^verbatim>\<open>image\<close>. After a successful refresh that wrote the image to disk,
  \<^verbatim>\<open>getImage\<close> would answer 200 with its bytes, and the application answers 404,
  "Country not found".
\<close>

theorem image_route_is_shadowed:
  "app example_env refresh_request empty_state
     = (Response 200 (MessageBody ''Countries refreshed successfully''), refreshed_state)
   \<and> files refreshed_state tmpImagePath = Some example_png
   \<and> example_png \<noteq> []
   \<and> getImage refreshed_state = Response 200 (FileBody example_png)
   \<and> app example_env image_request refreshed_state
       = (Response 404 (ErrorBody ''Country not found''), refreshed_state)"
proof -
  have "app example_env refresh_request empty_state = refreshCountries example_env empty_state"
    by (simp add: app_def refresh_request_def router_def run_handler_def)
  then have a: "app example_env refresh_request empty_state
     = (Response 200 (MessageBody ''Countries refreshed successfully''), refreshed_state)"
    by (simp add: example_refresh)
  have f: "files refreshed_state tmpImagePath = Some example_png"
    by (simp add: refreshed_state_def)
  have p: "example_png \<noteq> []" by (simp add: example_png_def)
  from f have g: "getImage refreshed_state = Response 200 (FileBody example_png)"
    by (simp add: getImage_def)
  have "app example_env image_request refreshed_state = (getCountry ''image'' refreshed_state, refreshed_state)"
    by (rule image_route) (simp_all add: image_request_def)
  moreover have "getCountry ''image'' refreshed_state = Response 404 (ErrorBody ''Country not found'')"
    by (simp add: getCountry_def select_by_lower_name_def sql_eq_def collation_key_def
          country_not_found_def)
  ultimately have i: "app example_env image_request refreshed_state
       = (Response 404 (ErrorBody ''Country not found''), refreshed_state)"
    by simp
  from a f p g i show ?thesis by blast
qed

end
